theory Spec2Isabelle
  imports Main "HOL-Library.Sublist"
begin

section \<open>QuickSight export: a model of quicksight\_export.py\<close>

text \<open>
  The script lists the resources of up to three types through the AWS SDK, fetches the
  definition of every listed resource, saves lists and definitions as JSON files and
  keeps two global counters per type. The model threads the globals and the effects on
  the outside world through an explicit state; the outside world (the remote service and
  the file system) is an environment of outcomes, one for every call the script makes.

  The model starts where the command line has been parsed (line 138). Creating the SDK
  client, logging and printing are taken to succeed; every other exception the script
  can raise is a branch of the model.
\<close>

subsection \<open>Python values\<close>

text \<open>
  The SDK returns its responses as dictionaries with string keys whose values are nested
  JSON-like data; time stamps arrive as datetime objects.
\<close>

datatype pyval =
    PNone
  | PBool bool
  | PInt int
  | PStr string
  | PList "pyval list"
  | PDict "(string \<times> pyval) list"
  | PDatetime string

type_synonym pydict = "(string \<times> pyval) list"

datatype exn = KeyError string | TypeError | AttributeError

text \<open>\<^verbatim>\<open>value[key]\<close> with a string key: only a dictionary can answer, and only for a
  key it holds.\<close>

fun getitem :: "pyval \<Rightarrow> string \<Rightarrow> exn + pyval" where
  "getitem (PDict d) k = (case map_of d k of None \<Rightarrow> Inl (KeyError k) | Some v \<Rightarrow> Inr v)"
| "getitem _ k = Inl TypeError"

text \<open>\<^verbatim>\<open>len(value)\<close>.\<close>

fun py_len :: "pyval \<Rightarrow> exn + nat" where
  "py_len (PList xs) = Inr (length xs)"
| "py_len (PDict d) = Inr (length d)"
| "py_len (PStr s) = Inr (length s)"
| "py_len _ = Inl TypeError"

text \<open>The values a \<^verbatim>\<open>for\<close> loop over \<^verbatim>\<open>enumerate(value)\<close> visits: the elements of a list,
  the keys of a dictionary, the characters of a string.\<close>

fun py_iter :: "pyval \<Rightarrow> exn + pyval list" where
  "py_iter (PList xs) = Inr xs"
| "py_iter (PDict d) = Inr (map (\<lambda>kv. PStr (fst kv)) d)"
| "py_iter (PStr s) = Inr (map (\<lambda>c. PStr [c]) s)"
| "py_iter _ = Inl TypeError"

text \<open>\<^verbatim>\<open>s.replace(old, new)\<close> for a one-character \<^verbatim>\<open>old\<close>.\<close>

fun str_replace :: "char \<Rightarrow> string \<Rightarrow> string \<Rightarrow> string" where
  "str_replace old new [] = []"
| "str_replace old new (c # cs) = (if c = old then new else [c]) @ str_replace old new cs"

text \<open>\<^verbatim>\<open>value.replace('/', '--')\<close>: a string has the method; a datetime has a method of
  that name which refuses string arguments; no other value has one.\<close>

fun replace_slash :: "pyval \<Rightarrow> exn + string" where
  "replace_slash (PStr s) = Inr (str_replace (CHR ''/'') ''--'' s)"
| "replace_slash (PDatetime d) = Inl TypeError"
| "replace_slash _ = Inl AttributeError"

subsection \<open>Resource types, messages, state\<close>

text \<open>
  The script names the resource type by one of three strings, fixed at lines 144 to 151;
  no other string reaches any function.
\<close>

datatype resource_type = data_sets | analyses | dashboards

fun type_name :: "resource_type \<Rightarrow> string" where
  "type_name data_sets = ''data_sets''"
| "type_name analyses = ''analyses''"
| "type_name dashboards = ''dashboards''"

text \<open>Lines 172 to 180: the field of the list response and the identifier field of a
  summary.\<close>

fun json_object_name :: "resource_type \<Rightarrow> string" where
  "json_object_name data_sets = ''DataSetSummaries''"
| "json_object_name analyses = ''AnalysisSummaryList''"
| "json_object_name dashboards = ''DashboardSummaryList''"

fun json_object_id :: "resource_type \<Rightarrow> string" where
  "json_object_id data_sets = ''DataSetId''"
| "json_object_id analyses = ''AnalysisId''"
| "json_object_id dashboards = ''DashboardId''"

text \<open>
  Every text the script logs or prints is a fixed format filled with values; a message
  keeps the format's name and the values.
\<close>

datatype level = INFO | ERROR | CRITICAL

datatype message =
    Retrieved_list resource_type
  | Failed_list resource_type string
  | Call_failed resource_type pyval string
  | Embedded_error resource_type pyval pyval pyval
  | Retrieved resource_type
  | Created_dir string
  | Mkdir_failed string
  | Saved_definition string resource_type
  | Saved_list resource_type
  | Save_failed string resource_type
  | Summary int int int int int int
  | Progress int int resource_type
  | Cursor_up

text \<open>
  The state: the two global counters, the paths known to exist, every attempt to write a
  file (file name, data, whether it was saved), the log file and the console.
\<close>

record state =
  successes :: "resource_type \<Rightarrow> int"
  failures :: "resource_type \<Rightarrow> int"
  dirs :: "string set"
  writes :: "(string \<times> pydict \<times> bool) list"
  logged :: "(level \<times> message) list"
  printed :: "message list"

text \<open>
  The environment: what the remote calls answer (\<open>Inl\<close> is the text of the exception
  raised), which paths exist at the start, for which paths \<^verbatim>\<open>os.makedirs\<close> raises, and for
  which file and data opening or dumping raises.
\<close>

record env =
  aws_list :: "string \<Rightarrow> resource_type \<Rightarrow> string \<Rightarrow> string + pydict"
  aws_describe :: "string \<Rightarrow> resource_type \<Rightarrow> string \<Rightarrow> pyval \<Rightarrow> string + pydict"
  existing :: "string set"
  makedirs_fails :: "string \<Rightarrow> bool"
  dump_fails :: "string \<Rightarrow> pydict \<Rightarrow> bool"

text \<open>
  A function stops the script by \<^verbatim>\<open>sys.exit()\<close> or by an exception nobody catches;
  otherwise it returns a value. Both carry the state reached.
\<close>

datatype stop = SystemExit | Uncaught exn

type_synonym 'a result = "(stop \<times> state) + ('a \<times> state)"

fun exit_status :: "stop \<Rightarrow> int" where
  "exit_status SystemExit = 0"
| "exit_status (Uncaught e) = 1"

definition final_state :: "'a result \<Rightarrow> state" where
  "final_state r = (case r of Inl c \<Rightarrow> snd c | Inr p \<Rightarrow> snd p)"

subsection \<open>The functions of the script\<close>

definition list_quicksight_resources ::
  "env \<Rightarrow> string \<Rightarrow> string \<Rightarrow> resource_type \<Rightarrow> state \<Rightarrow> pydict option \<times> state" where
  "list_quicksight_resources env account_id region resource_type s =
     (case aws_list env region resource_type account_id of
        Inr response \<Rightarrow>
          (Some response,
           s\<lparr>logged := logged s @ [(INFO, Retrieved_list resource_type)],
             printed := printed s @ [Retrieved_list resource_type]\<rparr>)
      | Inl error \<Rightarrow>
          (None,
           s\<lparr>logged := logged s @ [(ERROR, Failed_list resource_type error)],
             printed := printed s @ [Failed_list resource_type error]\<rparr>))"

definition get_quicksight_resource ::
  "env \<Rightarrow> string \<Rightarrow> string \<Rightarrow> resource_type \<Rightarrow> pyval \<Rightarrow> state \<Rightarrow> (pydict option) result" where
  "get_quicksight_resource env account_id region resource_type resource_id s =
     (case aws_describe env region resource_type account_id resource_id of
        Inl error \<Rightarrow>
          Inr (None,
               s\<lparr>logged := logged s @ [(ERROR, Call_failed resource_type resource_id error)],
                 failures := (failures s)(resource_type := failures s resource_type + 1)\<rparr>)
      | Inr response \<Rightarrow>
          (case map_of response ''Error'' of
             Some err \<Rightarrow>
               (case getitem err ''Code'' of
                  Inl e \<Rightarrow> Inl (Uncaught e, s)
                | Inr code \<Rightarrow>
                    (case getitem err ''Message'' of
                       Inl e \<Rightarrow> Inl (Uncaught e, s)
                     | Inr msg \<Rightarrow>
                         Inr (None,
                              s\<lparr>logged := logged s @
                                  [(ERROR, Embedded_error resource_type resource_id code msg)]\<rparr>)))
           | None \<Rightarrow>
               Inr (Some response,
                    s\<lparr>logged := logged s @ [(INFO, Retrieved resource_type)]\<rparr>)))"

definition summary :: "state \<Rightarrow> message" where
  "summary s =
     Summary (successes s data_sets) (successes s analyses) (successes s dashboards)
             (failures s data_sets) (failures s analyses) (failures s dashboards)"

definition finish_export :: "state \<Rightarrow> stop \<times> state" where
  "finish_export s =
     (SystemExit,
      s\<lparr>logged := logged s @ [(INFO, summary s)], printed := printed s @ [summary s]\<rparr>)"

text \<open>Line 63 and lines 77 to 81 of \<^verbatim>\<open>write_json_file\<close>.\<close>

definition filepath :: "resource_type \<Rightarrow> string" where
  "filepath resource_type = ''definitions/'' @ type_name resource_type @ ''/''"

definition filename :: "resource_type \<Rightarrow> string \<Rightarrow> string \<Rightarrow> string" where
  "filename resource_type name file_type =
     (if file_type = ''list''
      then filepath resource_type @ type_name resource_type @ ''-list.json''
      else if file_type = ''definition''
      then filepath resource_type @ name @ ''-'' @ type_name resource_type @ ''.json''
      else filepath resource_type @ name)"

definition write_json_file ::
  "env \<Rightarrow> resource_type \<Rightarrow> string \<Rightarrow> string \<Rightarrow> pydict \<Rightarrow> state \<Rightarrow> unit result" where
  "write_json_file env resource_type name file_type json_data s =
     (if filepath resource_type \<notin> dirs s \<and> makedirs_fails env (filepath resource_type)
      then
        Inl (finish_export
              (s\<lparr>logged := logged s @ [(CRITICAL, Mkdir_failed (filepath resource_type))],
                 printed := printed s @ [Mkdir_failed (filepath resource_type)]\<rparr>))
      else
        let s1 = (if filepath resource_type \<in> dirs s then s
                  else s\<lparr>dirs := insert (filepath resource_type) (dirs s),
                         logged := logged s @ [(INFO, Created_dir (filepath resource_type))]\<rparr>);
            f = filename resource_type name file_type
        in if dump_fails env f json_data
           then
             Inr ((),
                  s1\<lparr>writes := writes s1 @ [(f, json_data, False)],
                     logged := logged s1 @ [(ERROR, Save_failed name resource_type)],
                     failures :=
                       (if file_type = ''definition''
                        then (failures s1)(resource_type := failures s1 resource_type + 1)
                        else failures s1)\<rparr>)
           else
             Inr ((),
                  s1\<lparr>writes := writes s1 @ [(f, json_data, True)],
                     logged := logged s1 @
                       (if file_type = ''definition''
                        then [(INFO, Saved_definition name resource_type)]
                        else if file_type = ''list''
                        then [(INFO, Saved_list resource_type)]
                        else []),
                     successes :=
                       (if file_type = ''definition''
                        then (successes s1)(resource_type := successes s1 resource_type + 1)
                        else successes s1)\<rparr>))"

subsection \<open>The command line and the main loop\<close>

record cli_args =
  account_id :: string
  region :: string
  type_arg :: "string option"

text \<open>Lines 141 to 151. \<^verbatim>\<open>not cli_args.type\<close> holds for a missing option and for the empty
  string.\<close>

definition resource_types :: "string option \<Rightarrow> resource_type list" where
  "resource_types t =
     (case t of
        None \<Rightarrow> [data_sets, analyses, dashboards]
      | Some s \<Rightarrow>
          if s = [] then [data_sets, analyses, dashboards]
          else (if CHR ''d'' \<in> set s then [data_sets] else []) @
               (if CHR ''a'' \<in> set s then [analyses] else []) @
               (if CHR ''b'' \<in> set s then [dashboards] else []))"

text \<open>The body of the inner loop, lines 185 to 197. \<^verbatim>\<open>if resource_json:\<close> is false for
  \<^verbatim>\<open>None\<close> and for an empty dictionary.\<close>

definition process_item ::
  "env \<Rightarrow> string \<Rightarrow> string \<Rightarrow> resource_type \<Rightarrow> nat \<Rightarrow> nat \<Rightarrow> pyval \<Rightarrow> state \<Rightarrow> unit result" where
  "process_item env acct reg resource_type res_total index resource s =
     (case getitem resource (json_object_id resource_type) of
        Inl e \<Rightarrow> Inl (Uncaught e, s)
      | Inr resource_id \<Rightarrow>
          (case get_quicksight_resource env acct reg resource_type resource_id s of
             Inl c \<Rightarrow> Inl c
           | Inr (resource_json, s1) \<Rightarrow>
               (case
                  (case resource_json of
                     None \<Rightarrow> Inr ((), s1)
                   | Some d \<Rightarrow>
                       if d = [] then Inr ((), s1)
                       else
                         (case getitem resource ''Name'' of
                            Inl e \<Rightarrow> Inl (Uncaught e, s1)
                          | Inr nm \<Rightarrow>
                              (case replace_slash nm of
                                 Inl e \<Rightarrow> Inl (Uncaught e, s1)
                               | Inr fname \<Rightarrow>
                                   write_json_file env resource_type fname ''definition'' d s1)))
                of
                  Inl c \<Rightarrow> Inl c
                | Inr (u, s2) \<Rightarrow>
                    Inr ((),
                         s2\<lparr>printed := printed s2 @
                             [Progress (int index + 1) (int res_total) resource_type,
                              Cursor_up]\<rparr>))))"

fun process_items ::
  "env \<Rightarrow> string \<Rightarrow> string \<Rightarrow> resource_type \<Rightarrow> nat \<Rightarrow> nat \<Rightarrow> pyval list \<Rightarrow> state \<Rightarrow> unit result" where
  "process_items env acct reg resource_type res_total index [] s = Inr ((), s)"
| "process_items env acct reg resource_type res_total index (resource # rest) s =
     (case process_item env acct reg resource_type res_total index resource s of
        Inl c \<Rightarrow> Inl c
      | Inr (u, s1) \<Rightarrow> process_items env acct reg resource_type res_total (Suc index) rest s1)"

text \<open>The body of the outer loop, lines 159 to 197. \<^verbatim>\<open>if not list_json\<close> holds for
  \<^verbatim>\<open>None\<close> and for an empty dictionary.\<close>

definition process_type ::
  "env \<Rightarrow> string \<Rightarrow> string \<Rightarrow> resource_type \<Rightarrow> state \<Rightarrow> unit result" where
  "process_type env acct reg resource_type s =
     (case list_quicksight_resources env acct reg resource_type s of
        (list_json, s1) \<Rightarrow>
          (case list_json of
             None \<Rightarrow> Inr ((), s1)
           | Some d \<Rightarrow>
               if d = [] then Inr ((), s1)
               else
                 (case write_json_file env resource_type [] ''list'' d s1 of
                    Inl c \<Rightarrow> Inl c
                  | Inr (u, s2) \<Rightarrow>
                      (case getitem (PDict d) (json_object_name resource_type) of
                         Inl e \<Rightarrow> Inl (Uncaught e, s2)
                       | Inr resources \<Rightarrow>
                           (case py_len resources of
                              Inl e \<Rightarrow> Inl (Uncaught e, s2)
                            | Inr res_total \<Rightarrow>
                                (case py_iter resources of
                                   Inl e \<Rightarrow> Inl (Uncaught e, s2)
                                 | Inr items \<Rightarrow>
                                     process_items env acct reg resource_type
                                       res_total 0 items s2))))))"

fun main_loop ::
  "env \<Rightarrow> string \<Rightarrow> string \<Rightarrow> resource_type list \<Rightarrow> state \<Rightarrow> unit result" where
  "main_loop env acct reg [] s = Inr ((), s)"
| "main_loop env acct reg (resource_type # rest) s =
     (case process_type env acct reg resource_type s of
        Inl c \<Rightarrow> Inl c
      | Inr (u, s1) \<Rightarrow> main_loop env acct reg rest s1)"

text \<open>Lines 118 to 127: the counters start at zero.\<close>

definition initial_state :: "env \<Rightarrow> state" where
  "initial_state env =
     \<lparr>successes = (\<lambda>t. 0), failures = (\<lambda>t. 0), dirs = existing env,
      writes = [], logged = [], printed = []\<rparr>"

text \<open>The script from line 138 on: the loop, then \<^verbatim>\<open>finish_export\<close>.\<close>

definition main :: "env \<Rightarrow> cli_args \<Rightarrow> stop \<times> state" where
  "main env cli =
     (case main_loop env (account_id cli) (region cli) (resource_types (type_arg cli))
             (initial_state env) of
        Inl c \<Rightarrow> c
      | Inr (u, s) \<Rightarrow> finish_export s)"

subsection \<open>Notions used in the statements\<close>

text \<open>Lines 146 to 151: the character of the \<^verbatim>\<open>-t\<close> value that selects a type.\<close>

fun type_char :: "resource_type \<Rightarrow> char" where
  "type_char data_sets = CHR ''d''"
| "type_char analyses = CHR ''a''"
| "type_char dashboards = CHR ''b''"

text \<open>
  The specification's wording of the selection, for comparison with \<open>resource_types\<close>:
  the types named by the characters of the \<^verbatim>\<open>-t\<close> string, in the order in which the string
  names them first.
\<close>

fun spec_type_of_char :: "char \<Rightarrow> resource_type option" where
  "spec_type_of_char c =
     (if c = CHR ''d'' then Some data_sets
      else if c = CHR ''a'' then Some analyses
      else if c = CHR ''b'' then Some dashboards
      else None)"

fun spec_caller_order :: "string \<Rightarrow> resource_type list" where
  "spec_caller_order [] = []"
| "spec_caller_order (c # cs) =
     (case spec_type_of_char c of
        None \<Rightarrow> spec_caller_order cs
      | Some t \<Rightarrow> t # filter (\<lambda>u. u \<noteq> t) (spec_caller_order cs))"

text \<open>The number of terminal outcomes counted for a type.\<close>

definition outcomes :: "state \<Rightarrow> resource_type \<Rightarrow> int" where
  "outcomes s t = successes s t + failures s t"

text \<open>The items the inner loop visits for a type: those of the summaries field of the
  list response, none when the list call fails or the field is missing.\<close>

definition listed_items :: "env \<Rightarrow> string \<Rightarrow> string \<Rightarrow> resource_type \<Rightarrow> pyval list" where
  "listed_items env acct reg t =
     (case aws_list env reg t acct of
        Inl error \<Rightarrow> []
      | Inr d \<Rightarrow>
          (case map_of d (json_object_name t) of
             None \<Rightarrow> []
           | Some resources \<Rightarrow>
               (case py_iter resources of Inl e \<Rightarrow> [] | Inr items \<Rightarrow> items)))"

text \<open>Nothing has been counted for a type and no file has been written, or tried, under
  its directory.\<close>

definition untouched :: "resource_type \<Rightarrow> state \<Rightarrow> bool" where
  "untouched t s \<longleftrightarrow>
     successes s t = 0 \<and> failures s t = 0 \<and>
     (\<forall>w \<in> set (writes s). \<not> prefix (filepath t) (fst w))"

text \<open>A path that lies directly in the directory of one of the types: after the
  directory's name no further separator follows.\<close>

definition flat_file :: "string \<Rightarrow> bool" where
  "flat_file f \<longleftrightarrow>
     (\<exists>t \<in> set [data_sets, analyses, dashboards].
        prefix (filepath t) f \<and> CHR ''/'' \<notin> set (drop (length (filepath t)) f))"

text \<open>
  Responses of the shape the script relies on: an embedded error object carries a code
  and a message; a non-empty list response carries the summaries field of its type, and
  every summary is a dictionary with the identifier field and a string name.
\<close>

definition wf_response :: "string + pydict \<Rightarrow> bool" where
  "wf_response r =
     (case r of
        Inl error \<Rightarrow> True
      | Inr d \<Rightarrow>
          (case map_of d ''Error'' of
             None \<Rightarrow> True
           | Some (PDict e) \<Rightarrow> map_of e ''Code'' \<noteq> None \<and> map_of e ''Message'' \<noteq> None
           | Some v \<Rightarrow> False))"

fun is_str :: "pyval \<Rightarrow> bool" where
  "is_str (PStr s) = True"
| "is_str v = False"

definition wf_item :: "env \<Rightarrow> string \<Rightarrow> string \<Rightarrow> resource_type \<Rightarrow> pyval \<Rightarrow> bool" where
  "wf_item env acct reg t x =
     (case x of
        PDict kv \<Rightarrow>
          (case map_of kv (json_object_id t) of
             None \<Rightarrow> False
           | Some rid \<Rightarrow>
               wf_response (aws_describe env reg t acct rid) \<and>
               (case map_of kv ''Name'' of None \<Rightarrow> False | Some v \<Rightarrow> is_str v))
      | v \<Rightarrow> False)"

definition wf_list :: "env \<Rightarrow> string \<Rightarrow> string \<Rightarrow> resource_type \<Rightarrow> bool" where
  "wf_list env acct reg t =
     (case aws_list env reg t acct of
        Inl error \<Rightarrow> True
      | Inr d \<Rightarrow>
          d = [] \<or>
          (case map_of d (json_object_name t) of
             None \<Rightarrow> False
           | Some resources \<Rightarrow>
               (case py_iter resources of
                  Inl e \<Rightarrow> False
                | Inr items \<Rightarrow> list_all (wf_item env acct reg t) items)))"

definition wf_run :: "env \<Rightarrow> cli_args \<Rightarrow> bool" where
  "wf_run env cli =
     list_all (wf_list env (account_id cli) (region cli)) (resource_types (type_arg cli))"

subsection \<open>A sample account\<close>

text \<open>
  Two data sets, one of them with a separator in its name; the list call for analyses
  times out; three dashboards, the second of which is answered by an embedded error.
  Directories can be created and files written.
\<close>

definition item :: "resource_type \<Rightarrow> string \<Rightarrow> string \<Rightarrow> pyval" where
  "item t i n = PDict [(json_object_id t, PStr i), (''Name'', PStr n)]"

definition sample_env :: env where
  "sample_env =
     \<lparr>aws_list = (\<lambda>reg t acct.
        case t of
          data_sets \<Rightarrow>
            Inr [(''DataSetSummaries'',
                  PList [item data_sets ''ds1'' ''Sales/Q1'',
                         item data_sets ''ds2'' ''Sales-Q2''])]
        | analyses \<Rightarrow> Inl ''timed out''
        | dashboards \<Rightarrow>
            Inr [(''DashboardSummaryList'',
                  PList [item dashboards ''b1'' ''One'', item dashboards ''b2'' ''Two'',
                         item dashboards ''b3'' ''Three''])]),
      aws_describe = (\<lambda>reg t acct rid.
        if rid = PStr ''b2''
        then Inr [(''Error'',
                   PDict [(''Code'', PStr ''Throttled''), (''Message'', PStr ''slow down'')])]
        else Inr [(''Status'', PInt 200)]),
      existing = {},
      makedirs_fails = (\<lambda>p. False),
      dump_fails = (\<lambda>f d. False)\<rparr>"

definition sample_cli :: cli_args where
  "sample_cli = \<lparr>account_id = ''123456789012'', region = ''us-east-1'', type_arg = None\<rparr>"

text \<open>The same account on a disk where the directory for dashboards cannot be created,
  on a disk where nothing can be written, and behind a service whose describe calls all fail, whose list
  responses lack the summaries field, or whose responses are empty.\<close>

definition readonly_env :: env where
  "readonly_env = sample_env\<lparr>makedirs_fails := (\<lambda>p. p = ''definitions/dashboards/'')\<rparr>"

definition full_disk_env :: env where
  "full_disk_env = sample_env\<lparr>dump_fails := (\<lambda>f d. True)\<rparr>"

definition offline_env :: env where
  "offline_env = sample_env\<lparr>aws_describe := (\<lambda>reg t acct rid. Inl ''unreachable'')\<rparr>"

definition bare_env :: env where
  "bare_env = sample_env\<lparr>aws_list := (\<lambda>reg t acct. Inr [(''ResponseMetadata'', PDict [])])\<rparr>"

definition empty_env :: env where
  "empty_env =
     sample_env\<lparr>aws_list := (\<lambda>reg t acct.
                   case t of
                     data_sets \<Rightarrow> Inr []
                   | analyses \<Rightarrow> Inr [(''AnalysisSummaryList'', PList [item analyses ''a1'' ''A'']) ]
                   | dashboards \<Rightarrow> Inl ''timed out''),
                 aws_describe := (\<lambda>reg t acct rid. Inr [])\<rparr>"

section \<open>Effects of the functions on the state\<close>

lemma final_state_simps [simp]:
  "final_state (Inl c) = snd c" "final_state (Inr p) = snd p"
  by (simp_all add: final_state_def)

lemma summary_simps [simp]:
  "summary (s\<lparr>logged := l\<rparr>) = summary s"
  "summary (s\<lparr>printed := p\<rparr>) = summary s"
  "summary (s\<lparr>dirs := d\<rparr>) = summary s"
  "summary (s\<lparr>writes := w\<rparr>) = summary s"
  by (simp_all add: summary_def)

lemma outcomes_simps [simp]:
  "outcomes (s\<lparr>logged := l\<rparr>) = outcomes s"
  "outcomes (s\<lparr>printed := p\<rparr>) = outcomes s"
  "outcomes (s\<lparr>dirs := d\<rparr>) = outcomes s"
  "outcomes (s\<lparr>writes := w\<rparr>) = outcomes s"
  by (simp_all add: outcomes_def fun_eq_iff)

lemma get_quicksight_resource_outcomes:
  "outcomes (final_state (get_quicksight_resource env acct reg t rid s)) t' \<le> outcomes s t' + 1"
  "t' \<noteq> t \<Longrightarrow> outcomes (final_state (get_quicksight_resource env acct reg t rid s)) t' = outcomes s t'"
  "get_quicksight_resource env acct reg t rid s = Inr (Some d, s1) \<Longrightarrow> outcomes s1 = outcomes s"
  by (auto simp: get_quicksight_resource_def outcomes_def fun_eq_iff split: sum.splits option.splits)

lemma write_json_file_outcomes:
  "outcomes (final_state (write_json_file env t name ft d s)) t' \<le> outcomes s t' + 1"
  "t' \<noteq> t \<Longrightarrow> outcomes (final_state (write_json_file env t name ft d s)) t' = outcomes s t'"
  "ft = ''list'' \<Longrightarrow> outcomes (final_state (write_json_file env t name ft d s)) = outcomes s"
  by (auto simp: write_json_file_def finish_export_def outcomes_def Let_def fun_eq_iff)

lemma replace_slash_Inr [simp]:
  "replace_slash v = Inr f \<longleftrightarrow> (\<exists>nm. v = PStr nm \<and> f = str_replace (CHR ''/'') ''--'' nm)"
  by (cases v) auto

lemma process_item_rule:
  assumes start: "Q s"
    and fetch: "\<And>rid. getitem x (json_object_id t) = Inr rid \<Longrightarrow>
      Q (final_state (get_quicksight_resource env acct reg t rid s))"
    and save: "\<And>rid d s1 nm.
      getitem x (json_object_id t) = Inr rid \<Longrightarrow>
      get_quicksight_resource env acct reg t rid s = Inr (Some d, s1) \<Longrightarrow> d \<noteq> [] \<Longrightarrow>
      getitem x ''Name'' = Inr (PStr nm) \<Longrightarrow>
      Q (final_state (write_json_file env t (str_replace (CHR ''/'') ''--'' nm) ''definition'' d s1))"
    and progress: "\<And>s' p. Q s' \<Longrightarrow> Q (s'\<lparr>printed := p\<rparr>)"
  shows "Q (final_state (process_item env acct reg t n i x s))"
proof (cases "getitem x (json_object_id t)")
  case (Inl e)
  then show ?thesis using start by (simp add: process_item_def)
next
  case (Inr rid)
  note f = fetch [OF Inr]
  show ?thesis
  proof (cases "get_quicksight_resource env acct reg t rid s")
    case (Inl c)
    then show ?thesis using f Inr by (simp add: process_item_def)
  next
    case r: (Inr p)
    obtain rj s1 where p: "p = (rj, s1)" by (cases p)
    have q1: "Q s1" using f r p by simp
    show ?thesis
    proof (cases "\<exists>d. rj = Some d \<and> d \<noteq> []")
      case False
      then have "process_item env acct reg t n i x s =
          Inr ((), s1\<lparr>printed := printed s1 @ [Progress (int i + 1) (int n) t, Cursor_up]\<rparr>)"
        using Inr r p by (auto simp: process_item_def split: option.splits)
      then show ?thesis using progress [OF q1] by simp
    next
      case True
      then obtain d where d: "rj = Some d" "d \<noteq> []" by blast
      show ?thesis
      proof (cases "\<exists>nm. getitem x ''Name'' = Inr (PStr nm)")
        case False
        then have "\<exists>e. process_item env acct reg t n i x s = Inl (Uncaught e, s1)"
          using Inr r p d
          by (cases "getitem x ''Name''"; cases "replace_slash (projr (getitem x ''Name''))")
             (auto simp: process_item_def)
        then show ?thesis using q1 by auto
      next
        case True
        then obtain nm where nm: "getitem x ''Name'' = Inr (PStr nm)" by blast
        let ?w = "write_json_file env t (str_replace (CHR ''/'') ''--'' nm) ''definition'' d s1"
        have w: "Q (final_state ?w)"
          using save [OF Inr _ d(2) nm] r p d by simp
        show ?thesis
        proof (cases ?w)
          case (Inl c)
          then have "process_item env acct reg t n i x s = Inl c"
            using Inr r p d nm by (simp add: process_item_def)
          then show ?thesis using w Inl by simp
        next
          case (Inr q)
          then have "process_item env acct reg t n i x s =
            Inr ((), (snd q)\<lparr>printed := printed (snd q) @
               [Progress (int i + 1) (int n) t, Cursor_up]\<rparr>)"
            using \<open>getitem x (json_object_id t) = Inr rid\<close> r p d nm
            by (simp add: process_item_def split: prod.split)
          then show ?thesis using w Inr progress by simp
        qed
      qed
    qed
  qed
qed

lemma process_item_outcomes:
  "outcomes (final_state (process_item env acct reg t n i x s)) t' \<le> outcomes s t' + 1"
proof (rule process_item_rule)
  show "outcomes s t' \<le> outcomes s t' + 1" by simp
next
  fix rid
  show "outcomes (final_state (get_quicksight_resource env acct reg t rid s)) t' \<le> outcomes s t' + 1"
    by (rule get_quicksight_resource_outcomes)
next
  fix rid d s1 nm
  assume "get_quicksight_resource env acct reg t rid s = Inr (Some d, s1)"
  then have "outcomes s1 = outcomes s" by (rule get_quicksight_resource_outcomes)
  then show "outcomes (final_state (write_json_file env t (str_replace (CHR ''/'') ''--'' nm)
      ''definition'' d s1)) t' \<le> outcomes s t' + 1"
    using write_json_file_outcomes(1) [of env t _ "''definition''" d s1 t'] by simp
qed simp

lemma process_item_outcomes_other:
  assumes "t' \<noteq> t"
  shows "outcomes (final_state (process_item env acct reg t n i x s)) t' = outcomes s t'"
proof (rule process_item_rule)
  fix rid
  show "outcomes (final_state (get_quicksight_resource env acct reg t rid s)) t' = outcomes s t'"
    using assms by (rule get_quicksight_resource_outcomes)
next
  fix rid d s1 nm
  assume "get_quicksight_resource env acct reg t rid s = Inr (Some d, s1)"
  then have "outcomes s1 = outcomes s" by (rule get_quicksight_resource_outcomes)
  then show "outcomes (final_state (write_json_file env t (str_replace (CHR ''/'') ''--'' nm)
      ''definition'' d s1)) t' = outcomes s t'"
    using write_json_file_outcomes(2) [OF assms, of env _ "''definition''" d s1] by simp
qed simp_all

lemma process_items_step:
  "final_state (process_items env acct reg t n i (x # xs) s) =
     (case process_item env acct reg t n i x s of
        Inl c \<Rightarrow> snd c
      | Inr p \<Rightarrow> final_state (process_items env acct reg t n (Suc i) xs (snd p)))"
  by (simp split: sum.split prod.split)

lemma process_items_rule:
  assumes "Q s"
    and "\<And>i x s'. x \<in> set xs \<Longrightarrow> Q s' \<Longrightarrow> Q (final_state (process_item env acct reg t n i x s'))"
  shows "Q (final_state (process_items env acct reg t n i xs s))"
  using assms
proof (induction xs arbitrary: i s)
  case Nil
  then show ?case by simp
next
  case (Cons x xs)
  have step: "Q (final_state (process_item env acct reg t n i x s))"
    using Cons.prems by simp
  show ?case
  proof (cases "process_item env acct reg t n i x s")
    case (Inl c)
    then show ?thesis using step by (simp add: process_items_step del: process_items.simps)
  next
    case (Inr p)
    then have "Q (snd p)" using step by simp
    then have "Q (final_state (process_items env acct reg t n (Suc i) xs (snd p)))"
      using Cons.prems(2) by (intro Cons.IH) simp_all
    then show ?thesis using Inr by (simp add: process_items_step del: process_items.simps)
  qed
qed

lemma process_items_outcomes:
  "outcomes (final_state (process_items env acct reg t n i xs s)) t'
     \<le> outcomes s t' + int (length xs)"
proof (induction xs arbitrary: i s)
  case Nil
  then show ?case by simp
next
  case (Cons x xs)
  have step: "outcomes (final_state (process_item env acct reg t n i x s)) t' \<le> outcomes s t' + 1"
    by (rule process_item_outcomes)
  show ?case
  proof (cases "process_item env acct reg t n i x s")
    case (Inl c)
    then show ?thesis using step by (simp add: process_items_step del: process_items.simps)
  next
    case (Inr p)
    have "outcomes (final_state (process_items env acct reg t n (Suc i) xs (snd p))) t'
        \<le> outcomes (snd p) t' + int (length xs)"
      by (rule Cons.IH)
    then show ?thesis using Inr step by (simp add: process_items_step del: process_items.simps)
  qed
qed

lemma process_items_outcomes_other:
  assumes "t' \<noteq> t"
  shows "outcomes (final_state (process_items env acct reg t n i xs s)) t' = outcomes s t'"
  by (rule process_items_rule) (simp_all add: process_item_outcomes_other [OF assms])

lemma py_len_iter:
  "py_len v = (case py_iter v of Inl e \<Rightarrow> Inl e | Inr xs \<Rightarrow> Inr (length xs))"
  by (cases v) simp_all

lemma process_type_unfold:
  "process_type env acct reg t s =
     (case aws_list env reg t acct of
        Inl err \<Rightarrow> Inr ((), snd (list_quicksight_resources env acct reg t s))
      | Inr d \<Rightarrow>
          if d = [] then Inr ((), snd (list_quicksight_resources env acct reg t s))
          else
            (case write_json_file env t [] ''list'' d
                    (snd (list_quicksight_resources env acct reg t s)) of
               Inl c \<Rightarrow> Inl c
             | Inr p \<Rightarrow>
                 (case map_of d (json_object_name t) of
                    None \<Rightarrow> Inl (Uncaught (KeyError (json_object_name t)), snd p)
                  | Some resources \<Rightarrow>
                      (case py_iter resources of
                         Inl e \<Rightarrow> Inl (Uncaught e, snd p)
                       | Inr items \<Rightarrow>
                           process_items env acct reg t (length items) 0 items (snd p)))))"
  by (simp add: process_type_def list_quicksight_resources_def py_len_iter
      split: sum.split option.split prod.split)

lemma process_type_rule:
  assumes listed: "Q (snd (list_quicksight_resources env acct reg t s))"
    and saved: "\<And>d. aws_list env reg t acct = Inr d \<Longrightarrow> d \<noteq> [] \<Longrightarrow>
      Q (final_state (write_json_file env t [] ''list'' d
           (snd (list_quicksight_resources env acct reg t s))))"
    and items: "\<And>d s2 resources items.
      aws_list env reg t acct = Inr d \<Longrightarrow> d \<noteq> [] \<Longrightarrow>
      write_json_file env t [] ''list'' d (snd (list_quicksight_resources env acct reg t s))
        = Inr ((), s2) \<Longrightarrow>
      map_of d (json_object_name t) = Some resources \<Longrightarrow>
      py_iter resources = Inr items \<Longrightarrow>
      Q (final_state (process_items env acct reg t (length items) 0 items s2))"
  shows "Q (final_state (process_type env acct reg t s))"
proof (cases "aws_list env reg t acct")
  case (Inl err)
  then show ?thesis using listed by (simp add: process_type_unfold)
next
  case (Inr d)
  let ?s1 = "snd (list_quicksight_resources env acct reg t s)"
  show ?thesis
  proof (cases "d = []")
    case True
    then show ?thesis using listed Inr by (simp add: process_type_unfold)
  next
    case False
    note w = saved [OF Inr False]
    show ?thesis
    proof (cases "write_json_file env t [] ''list'' d ?s1")
      case (Inl c)
      then show ?thesis using w Inr False by (simp add: process_type_unfold)
    next
      case wr: (Inr p)
      then have p: "write_json_file env t [] ''list'' d ?s1 = Inr ((), snd p)"
        by (cases p) simp
      have q2: "Q (snd p)" using w wr by simp
      show ?thesis
      proof (cases "map_of d (json_object_name t)")
        case None
        then show ?thesis using q2 Inr False wr by (simp add: process_type_unfold)
      next
        case (Some resources)
        show ?thesis
        proof (cases "py_iter resources")
          case (Inl e)
          then show ?thesis using q2 Inr False wr Some by (simp add: process_type_unfold)
        next
          case it: (Inr items)
          then show ?thesis
            using items [OF Inr False p Some it] Inr False wr Some
            by (simp add: process_type_unfold)
        qed
      qed
    qed
  qed
qed

lemma list_quicksight_resources_outcomes [simp]:
  "outcomes (snd (list_quicksight_resources env acct reg t s)) = outcomes s"
  by (simp add: list_quicksight_resources_def split: sum.split)

lemma process_type_outcomes:
  "outcomes (final_state (process_type env acct reg t s)) t'
     \<le> outcomes s t' + (if t' = t then int (length (listed_items env acct reg t)) else 0)"
proof (rule process_type_rule)
  fix d s2 resources items
  assume a: "aws_list env reg t acct = Inr d" "map_of d (json_object_name t) = Some resources"
    "py_iter resources = Inr items"
    and w: "write_json_file env t [] ''list'' d (snd (list_quicksight_resources env acct reg t s))
      = Inr ((), s2)"
  have li: "listed_items env acct reg t = items"
    using a by (simp add: listed_items_def)
  have s2: "outcomes s2 = outcomes s"
    using write_json_file_outcomes(3) [of "''list''" env t "[]" d
        "snd (list_quicksight_resources env acct reg t s)"] w by simp
  show "outcomes (final_state (process_items env acct reg t (length items) 0 items s2)) t'
     \<le> outcomes s t' + (if t' = t then int (length (listed_items env acct reg t)) else 0)"
  proof (cases "t' = t")
    case True
    then show ?thesis
      using process_items_outcomes [of env acct reg t "length items" 0 items s2 t'] li s2
      by simp
  next
    case False
    then show ?thesis
      using process_items_outcomes_other [OF False, of env acct reg "length items" 0 items s2] s2
      by simp
  qed
qed (simp_all add: write_json_file_outcomes(3))

lemma main_loop_step:
  "final_state (main_loop env acct reg (t # ts) s) =
     (case process_type env acct reg t s of
        Inl c \<Rightarrow> snd c
      | Inr p \<Rightarrow> final_state (main_loop env acct reg ts (snd p)))"
  by (simp split: sum.split prod.split)

lemma main_loop_rule:
  assumes "Q s"
    and "\<And>t s'. t \<in> set ts \<Longrightarrow> Q s' \<Longrightarrow> Q (final_state (process_type env acct reg t s'))"
  shows "Q (final_state (main_loop env acct reg ts s))"
  using assms
proof (induction ts arbitrary: s)
  case Nil
  then show ?case by simp
next
  case (Cons t ts)
  have step: "Q (final_state (process_type env acct reg t s))"
    using Cons.prems by simp
  show ?case
  proof (cases "process_type env acct reg t s")
    case (Inl c)
    then show ?thesis using step by (simp add: main_loop_step del: main_loop.simps)
  next
    case (Inr p)
    then have "Q (snd p)" using step by simp
    then have "Q (final_state (main_loop env acct reg ts (snd p)))"
      using Cons.prems(2) by (intro Cons.IH) simp_all
    then show ?thesis using Inr by (simp add: main_loop_step del: main_loop.simps)
  qed
qed

lemma main_loop_outcomes:
  "distinct ts \<Longrightarrow>
   outcomes (final_state (main_loop env acct reg ts s)) t'
     \<le> outcomes s t' + (if t' \<in> set ts then int (length (listed_items env acct reg t')) else 0)"
proof (induction ts arbitrary: s)
  case Nil
  then show ?case by simp
next
  case (Cons t ts)
  have step: "outcomes (final_state (process_type env acct reg t s)) t'
     \<le> outcomes s t' + (if t' = t then int (length (listed_items env acct reg t)) else 0)"
    by (rule process_type_outcomes)
  show ?case
  proof (cases "process_type env acct reg t s")
    case (Inl c)
    then show ?thesis using step Cons.prems
      by (auto simp add: main_loop_step simp del: main_loop.simps split: if_splits)
  next
    case (Inr p)
    have "outcomes (final_state (main_loop env acct reg ts (snd p))) t'
      \<le> outcomes (snd p) t' + (if t' \<in> set ts then int (length (listed_items env acct reg t')) else 0)"
      using Cons.prems by (intro Cons.IH) simp
    then show ?thesis using Inr step Cons.prems
      by (auto simp add: main_loop_step simp del: main_loop.simps split: if_splits)
  qed
qed

lemma distinct_resource_types: "distinct (resource_types a)"
  by (simp add: resource_types_def split: option.split)

lemma main_final_state:
  "snd (main env cli) =
     (let r = main_loop env (account_id cli) (region cli) (resource_types (type_arg cli))
                (initial_state env)
      in case r of Inl c \<Rightarrow> snd c | Inr p \<Rightarrow> snd (finish_export (snd p)))"
  by (simp add: main_def split: sum.split prod.split)

lemma finish_export_outcomes [simp]: "outcomes (snd (finish_export s)) = outcomes s"
  by (simp add: finish_export_def)

lemma main_outcomes_loop:
  "outcomes (snd (main env cli)) =
   outcomes (final_state (main_loop env (account_id cli) (region cli)
      (resource_types (type_arg cli)) (initial_state env)))"
  by (simp add: main_final_state Let_def split: sum.split)

lemma fetch_failure_short_circuits:
  assumes "getitem x (json_object_id t) = Inr rid"
    and "aws_describe env reg t acct rid = Inl err"
  shows "process_item env acct reg t n i x s =
     Inr ((), s\<lparr>failures := (failures s)(t := failures s t + 1),
                 logged := logged s @ [(ERROR, Call_failed t rid err)],
                 printed := printed s @ [Progress (int i + 1) (int n) t, Cursor_up]\<rparr>)"
  using assms by (simp add: process_item_def get_quicksight_resource_def)

lemma write_json_file_exit:
  assumes "filepath t \<notin> dirs s" and "makedirs_fails env (filepath t)"
  shows "write_json_file env t name ft d s =
     Inl (SystemExit,
          s\<lparr>logged := logged s @ [(CRITICAL, Mkdir_failed (filepath t)), (INFO, summary s)],
            printed := printed s @ [Mkdir_failed (filepath t), summary s]\<rparr>)"
  using assms by (simp add: write_json_file_def finish_export_def)

lemma main_loop_append:
  "main_loop env acct reg (ts @ us) s =
     (case main_loop env acct reg ts s of
        Inl c \<Rightarrow> Inl c
      | Inr p \<Rightarrow> main_loop env acct reg us (snd p))"
  by (induction ts arbitrary: s) (simp_all split: sum.split prod.split)

lemma process_type_exit:
  assumes "aws_list env reg t acct = Inr d" and "d \<noteq> []"
    and "filepath t \<notin> dirs s" and "makedirs_fails env (filepath t)"
  shows "process_type env acct reg t s =
     Inl (SystemExit,
          s\<lparr>logged := logged s @
               [(INFO, Retrieved_list t), (CRITICAL, Mkdir_failed (filepath t)), (INFO, summary s)],
            printed := printed s @ [Retrieved_list t, Mkdir_failed (filepath t), summary s]\<rparr>)"
proof -
  let ?s1 = "snd (list_quicksight_resources env acct reg t s)"
  have s1: "?s1 = s\<lparr>logged := logged s @ [(INFO, Retrieved_list t)],
                     printed := printed s @ [Retrieved_list t]\<rparr>"
    using assms(1) by (simp add: list_quicksight_resources_def)
  have "filepath t \<notin> dirs ?s1" using assms(3) by (simp add: s1)
  then have "write_json_file env t [] ''list'' d ?s1 =
     Inl (SystemExit,
          ?s1\<lparr>logged := logged ?s1 @ [(CRITICAL, Mkdir_failed (filepath t)), (INFO, summary ?s1)],
            printed := printed ?s1 @ [Mkdir_failed (filepath t), summary ?s1]\<rparr>)"
    using assms(4) by (rule write_json_file_exit)
  then show ?thesis using assms(1,2) by (simp add: process_type_unfold s1)
qed

section \<open>Selection of the resource types\<close>

lemma resource_types_filter:
  "s \<noteq> [] \<Longrightarrow>
   resource_types (Some s) =
     filter (\<lambda>t. type_char t \<in> set s) [data_sets, analyses, dashboards]"
  by (simp add: resource_types_def)

lemma main_no_types:
  "resource_types (type_arg cli) = [] \<Longrightarrow>
   main env cli =
     (SystemExit,
      (initial_state env)\<lparr>logged := [(INFO, Summary 0 0 0 0 0 0)],
                            printed := [Summary 0 0 0 0 0 0]\<rparr>)"
  by (simp add: main_def finish_export_def summary_def initial_state_def)

text \<open>
  Claim C6, as the specification words it, would have \<^verbatim>\<open>-t bd\<close> process dashboards before
  data sets. The script tests the three characters in a fixed sequence, so the order of
  the characters in the string has no influence.
\<close>

theorem type_order_not_caller_specified:
  "resource_types (Some ''bd'') = [data_sets, dashboards] \<and>
   spec_caller_order ''bd'' = [dashboards, data_sets] \<and>
   resource_types (Some ''bd'') \<noteq> spec_caller_order ''bd''"
  by (simp add: resource_types_def)

text \<open>
  Claim C6, amended: without \<^verbatim>\<open>-t\<close> the three types data\_sets, analyses, dashboards are
  processed in that order; with a non-empty \<^verbatim>\<open>-t\<close> value the characters d, a, b select
  data\_sets, analyses, dashboards, and the selected types are processed in that same
  fixed order.
\<close>

theorem type_selection_fixed_order:
  "resource_types None = [data_sets, analyses, dashboards] \<and>
   (s \<noteq> [] \<longrightarrow>
      resource_types (Some s) =
        filter (\<lambda>t. type_char t \<in> set s) [data_sets, analyses, dashboards])"
  by (simp add: resource_types_def)

theorem type_selection_fixed_order_witness:
  "''ba'' \<noteq> [] \<and> resource_types (Some ''ba'') = [analyses, dashboards]"
  using type_selection_fixed_order [of "''ba''"] by simp

text \<open>
  Claim C9: for a non-empty \<^verbatim>\<open>-t\<close> string the selected types are exactly those whose
  character occurs in it, each once, in the order data\_sets, analyses, dashboards,
  whatever the order and repetition of the characters; the empty string selects all three
  types like a missing option; a non-empty string without d, a and b selects nothing, and
  the run consists of the all-zero summary and the exit.
\<close>

theorem type_selection_subset:
  assumes "s \<noteq> []"
  shows "set (resource_types (Some s)) = {t. type_char t \<in> set s} \<and>
    distinct (resource_types (Some s)) \<and>
    resource_types (Some s) =
      filter (\<lambda>t. t \<in> set (resource_types (Some s))) [data_sets, analyses, dashboards] \<and>
    (s' \<noteq> [] \<and> set s' = set s \<longrightarrow> resource_types (Some s') = resource_types (Some s)) \<and>
    resource_types (Some []) = [data_sets, analyses, dashboards] \<and>
    resource_types (Some []) = resource_types None \<and>
    (CHR ''d'' \<notin> set s \<and> CHR ''a'' \<notin> set s \<and> CHR ''b'' \<notin> set s \<longrightarrow>
       resource_types (Some s) = [] \<and>
       main env (cli\<lparr>type_arg := Some s\<rparr>) =
         (SystemExit,
          (initial_state env)\<lparr>logged := [(INFO, Summary 0 0 0 0 0 0)],
                                printed := [Summary 0 0 0 0 0 0]\<rparr>))"
proof -
  have types: "resource_types (Some s) =
      filter (\<lambda>t. type_char t \<in> set s) [data_sets, analyses, dashboards]"
    using assms by (rule resource_types_filter)
  have univ: "(UNIV :: resource_type set) = {data_sets, analyses, dashboards}"
    using resource_type.exhaust by blast
  have "set (resource_types (Some s)) = {t \<in> UNIV. type_char t \<in> set s}"
    unfolding types univ by auto
  then have a: "set (resource_types (Some s)) = {t. type_char t \<in> set s}"
    by simp
  have b: "distinct (resource_types (Some s))"
    unfolding types by simp
  have c: "resource_types (Some s) =
      filter (\<lambda>t. t \<in> set (resource_types (Some s))) [data_sets, analyses, dashboards]"
    unfolding a by (simp add: types)
  have d: "s' \<noteq> [] \<and> set s' = set s \<longrightarrow> resource_types (Some s') = resource_types (Some s)"
    by (simp add: resource_types_filter types)
  have e: "resource_types (Some []) = [data_sets, analyses, dashboards]"
    "resource_types (Some []) = resource_types None"
    by (simp_all add: resource_types_def)
  have f: "CHR ''d'' \<notin> set s \<and> CHR ''a'' \<notin> set s \<and> CHR ''b'' \<notin> set s \<longrightarrow>
       resource_types (Some s) = [] \<and>
       main env (cli\<lparr>type_arg := Some s\<rparr>) =
         (SystemExit,
          (initial_state env)\<lparr>logged := [(INFO, Summary 0 0 0 0 0 0)],
                                printed := [Summary 0 0 0 0 0 0]\<rparr>)"
    by (simp add: types main_no_types)
  from a b c d e f show ?thesis by blast
qed

theorem type_selection_subset_witness:
  "''bxd'' \<noteq> [] \<and>
   set (resource_types (Some ''bxd'')) = {data_sets, dashboards} \<and>
   resource_types (Some ''bxd'') = [data_sets, dashboards] \<and>
   resource_types (Some ''xddb'') = resource_types (Some ''bxd'')"
proof -
  have 1: "''bxd'' \<noteq> []" by simp
  have 2: "''xddb'' \<noteq> [] \<and> set ''xddb'' = set ''bxd''" by auto
  have 3: "resource_types (Some ''bxd'') = [data_sets, dashboards]"
    by (simp add: resource_types_def)
  from type_selection_subset [OF 1, of "''xddb''"] 2
  have "resource_types (Some ''xddb'') = resource_types (Some ''bxd'')"
    and "distinct (resource_types (Some ''bxd''))"
    by blast+
  then show ?thesis using 1 3 by auto
qed

section \<open>The counters\<close>

text \<open>
  Claim C2: one pass of the inner loop raises the sum of the two counters of a type by
  at most one; when the describe call fails, the failure is counted once and the pass
  ends without any write; and when the run has ended, in whichever way, successes plus
  failures of a type do not exceed the number of items listed for it.
\<close>

theorem counters_bounded_by_items:
  "outcomes (final_state (process_item env acct reg t n i x s)) t' \<le> outcomes s t' + 1 \<and>
   (getitem x (json_object_id t) = Inr rid \<and> aws_describe env reg t acct rid = Inl err \<longrightarrow>
      process_item env acct reg t n i x s =
        Inr ((), s\<lparr>failures := (failures s)(t := failures s t + 1),
                    logged := logged s @ [(ERROR, Call_failed t rid err)],
                    printed := printed s @ [Progress (int i + 1) (int n) t, Cursor_up]\<rparr>)) \<and>
   successes (snd (main env cli)) t + failures (snd (main env cli)) t
     \<le> int (length (listed_items env (account_id cli) (region cli) t))"
proof -
  have "outcomes (snd (main env cli)) t
     \<le> outcomes (initial_state env) t +
        (if t \<in> set (resource_types (type_arg cli))
         then int (length (listed_items env (account_id cli) (region cli) t)) else 0)"
    unfolding main_outcomes_loop
    by (rule main_loop_outcomes) (rule distinct_resource_types)
  moreover have "outcomes (initial_state env) t = 0"
    by (simp add: outcomes_def initial_state_def)
  ultimately have "outcomes (snd (main env cli)) t
     \<le> int (length (listed_items env (account_id cli) (region cli) t))"
    by (simp split: if_splits)
  then show ?thesis
    using process_item_outcomes [of env acct reg t n i x s t']
      fetch_failure_short_circuits [of x t rid env reg acct err n i s]
    by (simp add: outcomes_def)
qed

theorem counters_bounded_by_items_witness:
  "getitem (item dashboards ''b1'' ''One'') (json_object_id dashboards) = Inr (PStr ''b1'') \<and>
   aws_describe offline_env ''us-east-1'' dashboards ''123456789012'' (PStr ''b1'') =
     Inl ''unreachable'' \<and>
   failures (final_state (process_item offline_env ''123456789012'' ''us-east-1'' dashboards 3 0
       (item dashboards ''b1'' ''One'') (initial_state offline_env))) dashboards = 1 \<and>
   writes (final_state (process_item offline_env ''123456789012'' ''us-east-1'' dashboards 3 0
       (item dashboards ''b1'' ''One'') (initial_state offline_env))) = []"
proof -
  have 1: "getitem (item dashboards ''b1'' ''One'') (json_object_id dashboards) = Inr (PStr ''b1'')"
    by (simp add: item_def)
  have 2: "aws_describe offline_env ''us-east-1'' dashboards ''123456789012'' (PStr ''b1'') =
     Inl ''unreachable''"
    by (simp add: offline_env_def)
  have "process_item offline_env ''123456789012'' ''us-east-1'' dashboards 3 0
       (item dashboards ''b1'' ''One'') (initial_state offline_env) =
     Inr ((), (initial_state offline_env)
        \<lparr>failures := (failures (initial_state offline_env))
            (dashboards := failures (initial_state offline_env) dashboards + 1),
         logged := logged (initial_state offline_env) @
            [(ERROR, Call_failed dashboards (PStr ''b1'') ''unreachable'')],
         printed := printed (initial_state offline_env) @
            [Progress (int 0 + 1) (int 3) dashboards, Cursor_up]\<rparr>)"
    using counters_bounded_by_items
      [of offline_env "''123456789012''" "''us-east-1''" dashboards 3 0
          "item dashboards ''b1'' ''One''" "initial_state offline_env" dashboards
          "PStr ''b1''" "''unreachable''"] 1 2
    by blast
  then show ?thesis using 1 2 by (simp add: initial_state_def)
qed

section \<open>Failure to create a directory\<close>

text \<open>
  Claim C3: when the directory of a type does not exist and cannot be created, the writer
  logs and prints a critical message, logs and prints the summary, which carries the six
  counters as they stand at that moment, and exits; the run ends there with exit status
  0, with the counters and the files as they were, and no later type is processed.
\<close>

theorem directory_failure_exits_with_summary:
  assumes "resource_types (type_arg cli) = pre @ t # post"
    and "main_loop env (account_id cli) (region cli) pre (initial_state env) = Inr ((), s)"
    and "aws_list env (region cli) t (account_id cli) = Inr d" and "d \<noteq> []"
    and "filepath t \<notin> dirs s" and "makedirs_fails env (filepath t)"
  shows "write_json_file env t name file_type json_data s =
      Inl (SystemExit,
           s\<lparr>logged := logged s @
                [(CRITICAL, Mkdir_failed (filepath t)),
                 (INFO, Summary (successes s data_sets) (successes s analyses)
                          (successes s dashboards) (failures s data_sets)
                          (failures s analyses) (failures s dashboards))],
             printed := printed s @
                [Mkdir_failed (filepath t),
                 Summary (successes s data_sets) (successes s analyses)
                   (successes s dashboards) (failures s data_sets)
                   (failures s analyses) (failures s dashboards)]\<rparr>) \<and>
    main env cli =
      (SystemExit,
       s\<lparr>logged := logged s @
            [(INFO, Retrieved_list t), (CRITICAL, Mkdir_failed (filepath t)),
             (INFO, Summary (successes s data_sets) (successes s analyses)
                      (successes s dashboards) (failures s data_sets)
                      (failures s analyses) (failures s dashboards))],
         printed := printed s @
            [Retrieved_list t, Mkdir_failed (filepath t),
             Summary (successes s data_sets) (successes s analyses)
               (successes s dashboards) (failures s data_sets)
               (failures s analyses) (failures s dashboards)]\<rparr>) \<and>
    successes (snd (main env cli)) = successes s \<and>
    failures (snd (main env cli)) = failures s \<and>
    writes (snd (main env cli)) = writes s \<and>
    exit_status (fst (main env cli)) = 0"
proof -
  have sm: "summary s = Summary (successes s data_sets) (successes s analyses)
      (successes s dashboards) (failures s data_sets)
      (failures s analyses) (failures s dashboards)"
    by (simp add: summary_def)
  have w: "write_json_file env t name file_type json_data s =
      Inl (SystemExit,
           s\<lparr>logged := logged s @ [(CRITICAL, Mkdir_failed (filepath t)), (INFO, summary s)],
             printed := printed s @ [Mkdir_failed (filepath t), summary s]\<rparr>)"
    using assms(5,6) by (rule write_json_file_exit)
  have "main_loop env (account_id cli) (region cli) (pre @ t # post) (initial_state env) =
      process_type env (account_id cli) (region cli) t s"
    using assms(2) process_type_exit [OF assms(3-6)]
    by (simp add: main_loop_append)
  then have m: "main env cli =
      (SystemExit,
       s\<lparr>logged := logged s @
            [(INFO, Retrieved_list t), (CRITICAL, Mkdir_failed (filepath t)), (INFO, summary s)],
         printed := printed s @ [Retrieved_list t, Mkdir_failed (filepath t), summary s]\<rparr>)"
    using assms(1) process_type_exit [OF assms(3-6)] by (simp add: main_def)
  from w m show ?thesis by (simp add: sm)
qed

theorem directory_failure_exits_with_summary_witness:
  "resource_types (type_arg sample_cli) = [data_sets, analyses] @ dashboards # [] \<and>
   makedirs_fails readonly_env (filepath dashboards) \<and>
   fst (main readonly_env sample_cli) = SystemExit \<and>
   exit_status (fst (main readonly_env sample_cli)) = 0 \<and>
   successes (snd (main readonly_env sample_cli)) data_sets = 2 \<and>
   last (logged (snd (main readonly_env sample_cli))) = (INFO, Summary 2 0 0 0 0 0) \<and>
   last (printed (snd (main readonly_env sample_cli))) = Summary 2 0 0 0 0 0 \<and>
   (CRITICAL, Mkdir_failed ''definitions/dashboards/'')
     \<in> set (logged (snd (main readonly_env sample_cli)))"
proof -
  let ?r = "main_loop readonly_env (account_id sample_cli) (region sample_cli)
      [data_sets, analyses] (initial_state readonly_env)"
  let ?s = "final_state ?r"
  let ?d = "[(''DashboardSummaryList'',
             PList [item dashboards ''b1'' ''One'', item dashboards ''b2'' ''Two'',
                    item dashboards ''b3'' ''Three''])]"
  have 1: "resource_types (type_arg sample_cli) = [data_sets, analyses] @ dashboards # []"
    by (simp add: sample_cli_def resource_types_def)
  have "case ?r of Inl c \<Rightarrow> False | Inr p \<Rightarrow> True" by code_simp
  then have 2: "?r = Inr ((), ?s)" by (cases ?r) auto
  have 3: "aws_list readonly_env (region sample_cli) dashboards (account_id sample_cli) = Inr ?d"
    by (simp add: readonly_env_def sample_env_def)
  have 4: "?d \<noteq> []" by simp
  have 5: "filepath dashboards \<notin> dirs ?s" by code_simp
  have 6: "makedirs_fails readonly_env (filepath dashboards)"
    by (simp add: readonly_env_def filepath_def)
  have c: "successes ?s data_sets = 2" "successes ?s analyses = 0" "successes ?s dashboards = 0"
    "failures ?s data_sets = 0" "failures ?s analyses = 0" "failures ?s dashboards = 0"
    by code_simp+
  note t = directory_failure_exits_with_summary [OF 1 2 3 4 5 6]
  from t have m: "main readonly_env sample_cli =
      (SystemExit,
       ?s\<lparr>logged := logged ?s @
            [(INFO, Retrieved_list dashboards), (CRITICAL, Mkdir_failed (filepath dashboards)),
             (INFO, Summary 2 0 0 0 0 0)],
         printed := printed ?s @
            [Retrieved_list dashboards, Mkdir_failed (filepath dashboards),
             Summary 2 0 0 0 0 0]\<rparr>)"
    unfolding c by blast
  show ?thesis using 1 6 by (simp add: m c filepath_def del: main_loop.simps)
qed

section \<open>A list call that fails\<close>

lemma filepath_not_prefix:
  "t \<noteq> t' \<Longrightarrow> \<not> prefix (filepath t) (filename t' name ft)"
  by (cases t; cases t') (simp_all add: filepath_def filename_def)

lemma untouched_simps [simp]:
  "untouched t (s\<lparr>logged := l\<rparr>) = untouched t s"
  "untouched t (s\<lparr>printed := p\<rparr>) = untouched t s"
  "untouched t (s\<lparr>dirs := d\<rparr>) = untouched t s"
  by (simp_all add: untouched_def)

lemma list_quicksight_resources_untouched [simp]:
  "untouched t (snd (list_quicksight_resources env acct reg t' s)) = untouched t s"
  by (simp add: list_quicksight_resources_def split: sum.split)

lemma get_quicksight_resource_untouched:
  "t \<noteq> t' \<Longrightarrow> untouched t s \<Longrightarrow>
   untouched t (final_state (get_quicksight_resource env acct reg t' rid s))"
  by (simp add: get_quicksight_resource_def untouched_def split: sum.split option.split)

lemma write_json_file_untouched:
  "t \<noteq> t' \<Longrightarrow> untouched t s \<Longrightarrow>
   untouched t (final_state (write_json_file env t' name ft d s))"
  using filepath_not_prefix [of t t' name ft]
  by (simp add: write_json_file_def finish_export_def untouched_def Let_def)

lemma process_item_untouched:
  assumes "t \<noteq> t'" and "untouched t s"
  shows "untouched t (final_state (process_item env acct reg t' n i x s))"
proof (rule process_item_rule)
  show "untouched t s" by fact
next
  fix rid
  show "untouched t (final_state (get_quicksight_resource env acct reg t' rid s))"
    using assms by (rule get_quicksight_resource_untouched)
next
  fix rid d s1 nm
  assume "get_quicksight_resource env acct reg t' rid s = Inr (Some d, s1)"
  then have "untouched t s1"
    using get_quicksight_resource_untouched [OF assms, of env acct reg rid] by simp
  then show "untouched t (final_state (write_json_file env t'
      (str_replace (CHR ''/'') ''--'' nm) ''definition'' d s1))"
    using assms(1) by (intro write_json_file_untouched)
qed simp

lemma process_type_untouched:
  assumes "t \<noteq> t'" and "untouched t s"
  shows "untouched t (final_state (process_type env acct reg t' s))"
proof (rule process_type_rule)
  show "untouched t (snd (list_quicksight_resources env acct reg t' s))"
    using assms by simp
next
  fix d
  show "untouched t (final_state (write_json_file env t' [] ''list'' d
      (snd (list_quicksight_resources env acct reg t' s))))"
    using assms by (intro write_json_file_untouched) simp_all
next
  fix d s2 resources items
  assume "write_json_file env t' [] ''list'' d
      (snd (list_quicksight_resources env acct reg t' s)) = Inr ((), s2)"
  then have "untouched t s2"
    using write_json_file_untouched [OF assms(1), of
        "snd (list_quicksight_resources env acct reg t' s)" env "[]" "''list''" d] assms(2)
    by simp
  then show "untouched t (final_state (process_items env acct reg t' (length items) 0 items s2))"
    by (rule process_items_rule) (rule process_item_untouched [OF assms(1)])
qed

lemma process_type_list_failed:
  assumes "aws_list env reg t acct = Inl err"
  shows "process_type env acct reg t s =
     Inr ((), s\<lparr>logged := logged s @ [(ERROR, Failed_list t err)],
                 printed := printed s @ [Failed_list t err]\<rparr>)"
  using assms by (simp add: process_type_unfold list_quicksight_resources_def)

lemma main_loop_untouched:
  assumes "aws_list env reg t acct = Inl err" and "untouched t s"
  shows "untouched t (final_state (main_loop env acct reg ts s))"
proof (rule main_loop_rule)
  show "untouched t s" by fact
next
  fix t' s'
  assume s': "untouched t s'"
  show "untouched t (final_state (process_type env acct reg t' s'))"
  proof (cases "t' = t")
    case True
    then show ?thesis using s' by (simp add: process_type_list_failed [OF assms(1)])
  next
    case False
    then have "t \<noteq> t'" by simp
    then show ?thesis using s' by (rule process_type_untouched)
  qed
qed

lemma main_rule:
  assumes "Q (final_state (main_loop env (account_id cli) (region cli)
      (resource_types (type_arg cli)) (initial_state env)))"
    and "\<And>s. Q s \<Longrightarrow> Q (snd (finish_export s))"
  shows "Q (snd (main env cli))"
proof (cases "main_loop env (account_id cli) (region cli)
      (resource_types (type_arg cli)) (initial_state env)")
  case (Inl c)
  then show ?thesis using assms(1) by (simp add: main_def)
next
  case (Inr p)
  then show ?thesis using assms by (auto simp add: main_def split: prod.split)
qed

lemma main_untouched:
  assumes "aws_list env (region cli) t (account_id cli) = Inl err"
  shows "untouched t (snd (main env cli))"
proof (rule main_rule)
  have "untouched t (initial_state env)"
    by (simp add: untouched_def initial_state_def)
  then show "untouched t (final_state (main_loop env (account_id cli) (region cli)
      (resource_types (type_arg cli)) (initial_state env)))"
    by (rule main_loop_untouched [OF assms])
qed (simp add: finish_export_def)

text \<open>
  Claim C4: when the list call for a type raises, the lister logs and prints an error and
  returns nothing, and the loop goes on with the next type from a state in which only
  the log and the console have changed; when the run has ended, both counters of the type
  are 0 and no file has been written, or tried, under the directory of the type.
\<close>

theorem failed_list_skips_type:
  assumes "aws_list env (region cli) t (account_id cli) = Inl err"
  shows "list_quicksight_resources env (account_id cli) (region cli) t s =
      (None, s\<lparr>logged := logged s @ [(ERROR, Failed_list t err)],
                printed := printed s @ [Failed_list t err]\<rparr>) \<and>
    main_loop env (account_id cli) (region cli) (t # rest) s =
      main_loop env (account_id cli) (region cli) rest
        (s\<lparr>logged := logged s @ [(ERROR, Failed_list t err)],
           printed := printed s @ [Failed_list t err]\<rparr>) \<and>
    successes (snd (main env cli)) t = 0 \<and> failures (snd (main env cli)) t = 0 \<and>
    (\<forall>w \<in> set (writes (snd (main env cli))). \<not> prefix (filepath t) (fst w))"
proof -
  have "untouched t (snd (main env cli))"
    using assms by (rule main_untouched)
  then show ?thesis
    using assms process_type_list_failed [OF assms, of s]
    by (simp add: untouched_def list_quicksight_resources_def)
qed

theorem failed_list_skips_type_witness:
  "aws_list sample_env (region sample_cli) analyses (account_id sample_cli) = Inl ''timed out'' \<and>
   successes (snd (main sample_env sample_cli)) analyses = 0 \<and>
   failures (snd (main sample_env sample_cli)) analyses = 0 \<and>
   untouched analyses (snd (main sample_env sample_cli))"
proof -
  have 1: "aws_list sample_env (region sample_cli) analyses (account_id sample_cli) =
      Inl ''timed out''"
    by (simp add: sample_env_def)
  show ?thesis
    using failed_list_skips_type [OF 1] 1 by (simp add: untouched_def)
qed

section \<open>An embedded error in a describe response\<close>

lemma embedded_error_effect:
  assumes "aws_describe env reg t acct rid = Inr response"
    and "map_of response ''Error'' = Some err"
    and "getitem err ''Code'' = Inr code" and "getitem err ''Message'' = Inr msg"
  shows "get_quicksight_resource env acct reg t rid s =
     Inr (None, s\<lparr>logged := logged s @ [(ERROR, Embedded_error t rid code msg)]\<rparr>)"
  using assms by (simp add: get_quicksight_resource_def)

text \<open>
  Claim C1 at the scenario of the specification: three dashboards are listed and the
  describe call for the second is answered by an embedded error. The script logs the
  error, returns nothing and writes no file for that dashboard, as the lemma above says
  for every such response; but the failure counter stays as it is: the run ends with two
  successes and no failure for dashboards, where the claim has one failure.
\<close>

theorem embedded_error_not_counted:
  "failures (snd (main sample_env (sample_cli\<lparr>type_arg := Some ''b''\<rparr>))) dashboards = 0 \<and>
   successes (snd (main sample_env (sample_cli\<lparr>type_arg := Some ''b''\<rparr>))) dashboards = 2 \<and>
   map fst (writes (snd (main sample_env (sample_cli\<lparr>type_arg := Some ''b''\<rparr>)))) =
     [''definitions/dashboards/dashboards-list.json'',
      ''definitions/dashboards/One-dashboards.json'',
      ''definitions/dashboards/Three-dashboards.json''] \<and>
   (ERROR, Embedded_error dashboards (PStr ''b2'') (PStr ''Throttled'') (PStr ''slow down''))
     \<in> set (logged (snd (main sample_env (sample_cli\<lparr>type_arg := Some ''b''\<rparr>))))"
  by code_simp


section \<open>Empty responses\<close>

lemma process_type_list_falsy:
  assumes "aws_list env reg t acct = Inr []"
  shows "process_type env acct reg t s =
     Inr ((), s\<lparr>logged := logged s @ [(INFO, Retrieved_list t)],
                 printed := printed s @ [Retrieved_list t]\<rparr>)"
  using assms by (simp add: process_type_unfold list_quicksight_resources_def)

lemma process_item_falsy:
  assumes "getitem x (json_object_id t) = Inr rid"
    and "get_quicksight_resource env acct reg t rid s = Inr (r, s1)"
    and "r = None \<or> r = Some []"
  shows "process_item env acct reg t n i x s =
     Inr ((), s1\<lparr>printed := printed s1 @ [Progress (int i + 1) (int n) t, Cursor_up]\<rparr>)"
  using assms by (auto simp add: process_item_def)

lemma get_quicksight_resource_empty:
  assumes "aws_describe env reg t acct rid = Inr []"
  shows "get_quicksight_resource env acct reg t rid s =
     Inr (Some [], s\<lparr>logged := logged s @ [(INFO, Retrieved t)]\<rparr>)"
  using assms by (simp add: get_quicksight_resource_def)

text \<open>
  Claim C10: an empty list response makes the loop go on with the next type from a state
  in which only the log and the console have changed, as a failed list call does; when the
  fetcher returns nothing or an empty definition, the pass of the inner loop only prints
  its progress; and an item whose describe call answers with an empty definition changes
  neither the counters nor the files.
\<close>

theorem falsy_payload_is_absence:
  "(aws_list env reg t acct = Inr [] \<longrightarrow>
      main_loop env acct reg (t # rest) s =
        main_loop env acct reg rest
          (s\<lparr>logged := logged s @ [(INFO, Retrieved_list t)],
             printed := printed s @ [Retrieved_list t]\<rparr>)) \<and>
   (getitem x (json_object_id t) = Inr rid \<and>
    get_quicksight_resource env acct reg t rid s = Inr (r, s1) \<and> (r = None \<or> r = Some []) \<longrightarrow>
      process_item env acct reg t n i x s =
        Inr ((), s1\<lparr>printed := printed s1 @ [Progress (int i + 1) (int n) t, Cursor_up]\<rparr>)) \<and>
   (getitem x (json_object_id t) = Inr rid \<and> aws_describe env reg t acct rid = Inr [] \<longrightarrow>
      process_item env acct reg t n i x s =
        Inr ((), s\<lparr>logged := logged s @ [(INFO, Retrieved t)],
                    printed := printed s @ [Progress (int i + 1) (int n) t, Cursor_up]\<rparr>))"
proof -
  have a: "aws_list env reg t acct = Inr [] \<longrightarrow>
      main_loop env acct reg (t # rest) s =
        main_loop env acct reg rest
          (s\<lparr>logged := logged s @ [(INFO, Retrieved_list t)],
             printed := printed s @ [Retrieved_list t]\<rparr>)"
    by (simp add: process_type_list_falsy)
  have b: "getitem x (json_object_id t) = Inr rid \<and>
    get_quicksight_resource env acct reg t rid s = Inr (r, s1) \<and> (r = None \<or> r = Some []) \<longrightarrow>
      process_item env acct reg t n i x s =
        Inr ((), s1\<lparr>printed := printed s1 @ [Progress (int i + 1) (int n) t, Cursor_up]\<rparr>)"
    using process_item_falsy [of x t rid env acct reg s r s1 n i] by blast
  have c: "getitem x (json_object_id t) = Inr rid \<and> aws_describe env reg t acct rid = Inr [] \<longrightarrow>
      process_item env acct reg t n i x s =
        Inr ((), s\<lparr>logged := logged s @ [(INFO, Retrieved t)],
                    printed := printed s @ [Progress (int i + 1) (int n) t, Cursor_up]\<rparr>)"
    using process_item_falsy [of x t rid env acct reg s "Some []" _ n i]
      get_quicksight_resource_empty [of env reg t acct rid s]
    by auto
  from a b c show ?thesis by blast
qed

theorem falsy_payload_is_absence_witness:
  "aws_list empty_env ''us-east-1'' data_sets ''123456789012'' = Inr [] \<and>
   getitem (item analyses ''a1'' ''A'') (json_object_id analyses) = Inr (PStr ''a1'') \<and>
   aws_describe empty_env ''us-east-1'' analyses ''123456789012'' (PStr ''a1'') = Inr [] \<and>
   main_loop empty_env ''123456789012'' ''us-east-1'' [data_sets] (initial_state empty_env) =
     Inr ((), (initial_state empty_env)
        \<lparr>logged := [(INFO, Retrieved_list data_sets)], printed := [Retrieved_list data_sets]\<rparr>) \<and>
   process_item empty_env ''123456789012'' ''us-east-1'' analyses 1 0 (item analyses ''a1'' ''A'')
       (initial_state empty_env) =
     Inr ((), (initial_state empty_env)
        \<lparr>logged := [(INFO, Retrieved analyses)],
         printed := [Progress 1 1 analyses, Cursor_up]\<rparr>)"
proof -
  have 1: "aws_list empty_env ''us-east-1'' data_sets ''123456789012'' = Inr []"
    by (simp add: empty_env_def)
  have 2: "getitem (item analyses ''a1'' ''A'') (json_object_id analyses) = Inr (PStr ''a1'')"
    by (simp add: item_def)
  have 3: "aws_describe empty_env ''us-east-1'' analyses ''123456789012'' (PStr ''a1'') = Inr []"
    by (simp add: empty_env_def)
  have 4: "logged (initial_state empty_env) = []" "printed (initial_state empty_env) = []"
    by (simp_all add: initial_state_def)
  have "main_loop empty_env ''123456789012'' ''us-east-1'' (data_sets # []) (initial_state empty_env) =
     main_loop empty_env ''123456789012'' ''us-east-1'' []
       ((initial_state empty_env)
        \<lparr>logged := logged (initial_state empty_env) @ [(INFO, Retrieved_list data_sets)],
         printed := printed (initial_state empty_env) @ [Retrieved_list data_sets]\<rparr>)"
    using falsy_payload_is_absence
      [of empty_env "''us-east-1''" data_sets "''123456789012''" "[]" "initial_state empty_env"] 1
    by blast
  moreover have "process_item empty_env ''123456789012'' ''us-east-1'' analyses 1 0
       (item analyses ''a1'' ''A'') (initial_state empty_env) =
     Inr ((), (initial_state empty_env)
        \<lparr>logged := logged (initial_state empty_env) @ [(INFO, Retrieved analyses)],
         printed := printed (initial_state empty_env) @
           [Progress (int 0 + 1) (int 1) analyses, Cursor_up]\<rparr>)"
    using falsy_payload_is_absence
      [of empty_env "''us-east-1''" analyses "''123456789012''" _ _
          "item analyses ''a1'' ''A''" "PStr ''a1''" _ _ 1 0] 2 3
    by blast
  ultimately show ?thesis using 1 2 3 by (simp add: 4)
qed

section \<open>The writer and the counters\<close>

lemma write_json_file_definition_saved:
  assumes "filepath t \<in> dirs s \<or> \<not> makedirs_fails env (filepath t)"
    and "\<not> dump_fails env (filename t name ''definition'') d"
  shows "successes (final_state (write_json_file env t name ''definition'' d s)) =
      (successes s)(t := successes s t + 1)"
    and "failures (final_state (write_json_file env t name ''definition'' d s)) = failures s"
    and "(INFO, Saved_definition name t) \<in>
      set (logged (final_state (write_json_file env t name ''definition'' d s)))"
  using assms by (auto simp add: write_json_file_def Let_def)

lemma write_json_file_definition_failed:
  assumes "filepath t \<in> dirs s \<or> \<not> makedirs_fails env (filepath t)"
    and "dump_fails env (filename t name ''definition'') d"
  shows "failures (final_state (write_json_file env t name ''definition'' d s)) =
      (failures s)(t := failures s t + 1)"
    and "successes (final_state (write_json_file env t name ''definition'' d s)) = successes s"
    and "(ERROR, Save_failed name t) \<in>
      set (logged (final_state (write_json_file env t name ''definition'' d s)))"
  using assms by (auto simp add: write_json_file_def Let_def)

lemma write_json_file_list_counters:
  "successes (final_state (write_json_file env t name ''list'' d s)) = successes s"
  "failures (final_state (write_json_file env t name ''list'' d s)) = failures s"
  by (simp_all add: write_json_file_def finish_export_def Let_def)

lemma write_json_file_exit_counters:
  assumes "filepath t \<notin> dirs s" and "makedirs_fails env (filepath t)"
  shows "successes (final_state (write_json_file env t name ft d s)) = successes s"
    and "failures (final_state (write_json_file env t name ft d s)) = failures s"
  by (simp_all add: write_json_file_exit [OF assms])

lemma other_functions_counters:
  "successes (snd (list_quicksight_resources env acct reg t s)) = successes s"
  "failures (snd (list_quicksight_resources env acct reg t s)) = failures s"
  "successes (final_state (get_quicksight_resource env acct reg t rid s)) = successes s"
  "failures (final_state (get_quicksight_resource env acct reg t rid s)) =
     (case aws_describe env reg t acct rid of
        Inl err \<Rightarrow> (failures s)(t := failures s t + 1)
      | Inr response \<Rightarrow> failures s)"
  "successes (snd (finish_export s)) = successes s"
  "failures (snd (finish_export s)) = failures s"
  by (simp_all add: list_quicksight_resources_def get_quicksight_resource_def finish_export_def
      split: sum.split option.split)

text \<open>
  Claim C7: a definition that is saved raises the success counter of its type by one and
  leaves the failure counters alone; a definition that cannot be saved is logged as an error
  and raises the failure counter of its type by one, leaving the success counters alone;
  saving a list, or failing to, changes no counter, and neither does the exit after a
  directory could not be created. Outside the writer the only change to a counter is the
  failure that the fetcher counts when the describe call raises.
\<close>

theorem writer_counter_effects:
  "(file_type = ''definition'' \<and>
    (filepath t \<in> dirs s \<or> \<not> makedirs_fails env (filepath t)) \<and>
    \<not> dump_fails env (filename t name file_type) d \<longrightarrow>
      successes (final_state (write_json_file env t name file_type d s)) =
        (successes s)(t := successes s t + 1) \<and>
      failures (final_state (write_json_file env t name file_type d s)) = failures s) \<and>
   (file_type = ''definition'' \<and>
    (filepath t \<in> dirs s \<or> \<not> makedirs_fails env (filepath t)) \<and>
    dump_fails env (filename t name file_type) d \<longrightarrow>
      failures (final_state (write_json_file env t name file_type d s)) =
        (failures s)(t := failures s t + 1) \<and>
      successes (final_state (write_json_file env t name file_type d s)) = successes s \<and>
      (ERROR, Save_failed name t) \<in>
        set (logged (final_state (write_json_file env t name file_type d s)))) \<and>
   (file_type = ''list'' \<or> (filepath t \<notin> dirs s \<and> makedirs_fails env (filepath t)) \<longrightarrow>
      successes (final_state (write_json_file env t name file_type d s)) = successes s \<and>
      failures (final_state (write_json_file env t name file_type d s)) = failures s) \<and>
   successes (snd (list_quicksight_resources env acct reg t s)) = successes s \<and>
   failures (snd (list_quicksight_resources env acct reg t s)) = failures s \<and>
   successes (final_state (get_quicksight_resource env acct reg t rid s)) = successes s \<and>
   failures (final_state (get_quicksight_resource env acct reg t rid s)) =
     (case aws_describe env reg t acct rid of
        Inl err \<Rightarrow> (failures s)(t := failures s t + 1)
      | Inr response \<Rightarrow> failures s) \<and>
   successes (snd (finish_export s)) = successes s \<and>
   failures (snd (finish_export s)) = failures s"
proof -
  have a: "file_type = ''definition'' \<and>
    (filepath t \<in> dirs s \<or> \<not> makedirs_fails env (filepath t)) \<and>
    \<not> dump_fails env (filename t name file_type) d \<longrightarrow>
      successes (final_state (write_json_file env t name file_type d s)) =
        (successes s)(t := successes s t + 1) \<and>
      failures (final_state (write_json_file env t name file_type d s)) = failures s"
    using write_json_file_definition_saved(1,2) [of t s env name d] by blast
  have b: "file_type = ''definition'' \<and>
    (filepath t \<in> dirs s \<or> \<not> makedirs_fails env (filepath t)) \<and>
    dump_fails env (filename t name file_type) d \<longrightarrow>
      failures (final_state (write_json_file env t name file_type d s)) =
        (failures s)(t := failures s t + 1) \<and>
      successes (final_state (write_json_file env t name file_type d s)) = successes s \<and>
      (ERROR, Save_failed name t) \<in>
        set (logged (final_state (write_json_file env t name file_type d s)))"
    using write_json_file_definition_failed [of t s env name d] by blast
  have c: "file_type = ''list'' \<or> (filepath t \<notin> dirs s \<and> makedirs_fails env (filepath t)) \<longrightarrow>
      successes (final_state (write_json_file env t name file_type d s)) = successes s \<and>
      failures (final_state (write_json_file env t name file_type d s)) = failures s"
    using write_json_file_list_counters [of env t name d s]
      write_json_file_exit_counters [of t s env name file_type d]
    by blast
  from a b c show ?thesis
    by (simp only: other_functions_counters simp_thms)
qed

theorem writer_counter_effects_witness:
  "successes (final_state (write_json_file sample_env dashboards ''One'' ''definition''
      [(''Status'', PInt 200)] (initial_state sample_env))) dashboards = 1 \<and>
   failures (final_state (write_json_file sample_env dashboards ''One'' ''definition''
      [(''Status'', PInt 200)] (initial_state sample_env))) dashboards = 0 \<and>
   failures (final_state (write_json_file full_disk_env dashboards ''One'' ''definition''
      [(''Status'', PInt 200)] (initial_state full_disk_env))) dashboards = 1 \<and>
   successes (final_state (write_json_file full_disk_env dashboards ''One'' ''definition''
      [(''Status'', PInt 200)] (initial_state full_disk_env))) dashboards = 0 \<and>
   failures (final_state (write_json_file full_disk_env dashboards [] ''list''
      [(''Status'', PInt 200)] (initial_state full_disk_env))) dashboards = 0 \<and>
   successes (final_state (write_json_file sample_env dashboards [] ''list''
      [(''Status'', PInt 200)] (initial_state sample_env))) dashboards = 0"
proof -
  let ?d = "[(''Status'', PInt 200)]"
  have ok: "\<not> makedirs_fails sample_env (filepath dashboards)"
    "\<not> dump_fails sample_env (filename dashboards ''One'' ''definition'') ?d"
    by (simp_all add: sample_env_def)
  have bad: "\<not> makedirs_fails full_disk_env (filepath dashboards)"
    "dump_fails full_disk_env (filename dashboards ''One'' ''definition'') ?d"
    by (simp_all add: full_disk_env_def sample_env_def)
  have zero: "successes (initial_state sample_env) dashboards = 0"
    "failures (initial_state sample_env) dashboards = 0"
    "successes (initial_state full_disk_env) dashboards = 0"
    "failures (initial_state full_disk_env) dashboards = 0"
    by (simp_all add: initial_state_def)
  note w = writer_counter_effects
  have 1: "successes (final_state (write_json_file sample_env dashboards ''One'' ''definition''
        ?d (initial_state sample_env))) =
      (successes (initial_state sample_env))
        (dashboards := successes (initial_state sample_env) dashboards + 1)"
    "failures (final_state (write_json_file sample_env dashboards ''One'' ''definition''
        ?d (initial_state sample_env))) = failures (initial_state sample_env)"
    using w [of "''definition''" dashboards "initial_state sample_env" sample_env "''One''" ?d] ok
    by blast+
  have 2: "failures (final_state (write_json_file full_disk_env dashboards ''One'' ''definition''
        ?d (initial_state full_disk_env))) =
      (failures (initial_state full_disk_env))
        (dashboards := failures (initial_state full_disk_env) dashboards + 1)"
    "successes (final_state (write_json_file full_disk_env dashboards ''One'' ''definition''
        ?d (initial_state full_disk_env))) = successes (initial_state full_disk_env)"
    using w [of "''definition''" dashboards "initial_state full_disk_env" full_disk_env
        "''One''" ?d] bad
    by blast+
  have 3: "failures (final_state (write_json_file full_disk_env dashboards [] ''list''
        ?d (initial_state full_disk_env))) = failures (initial_state full_disk_env)"
    using w [of "''list''" dashboards "initial_state full_disk_env" full_disk_env "[]" ?d]
    by blast
  have 4: "successes (final_state (write_json_file sample_env dashboards [] ''list''
        ?d (initial_state sample_env))) = successes (initial_state sample_env)"
    using w [of "''list''" dashboards "initial_state sample_env" sample_env "[]" ?d]
    by blast
  show ?thesis by (simp add: 1 2 3 4 zero)
qed

section \<open>File names\<close>

lemma str_replace_removes:
  "old \<notin> set new \<Longrightarrow> old \<notin> set (str_replace old new s)"
  by (induction s) simp_all

lemma type_name_no_slash: "CHR ''/'' \<notin> set (type_name t)"
  by (cases t) simp_all

lemma flat_file_in_directory:
  assumes "CHR ''/'' \<notin> set base"
  shows "flat_file (filepath t @ base)"
proof -
  have "t \<in> set [data_sets, analyses, dashboards]" by (cases t) simp_all
  moreover have "prefix (filepath t) (filepath t @ base)" by simp
  moreover have "CHR ''/'' \<notin> set (drop (length (filepath t)) (filepath t @ base))"
    using assms by simp
  ultimately show ?thesis unfolding flat_file_def by blast
qed

lemma flat_file_filename:
  assumes "CHR ''/'' \<notin> set name"
  shows "flat_file (filename t name ft)"
proof -
  have "\<exists>base. filename t name ft = filepath t @ base \<and> CHR ''/'' \<notin> set base"
    using assms type_name_no_slash [of t] by (simp add: filename_def)
  then show ?thesis using flat_file_in_directory by auto
qed

lemma write_json_file_flat:
  assumes "CHR ''/'' \<notin> set name" and "\<forall>w \<in> set (writes s). flat_file (fst w)"
  shows "\<forall>w \<in> set (writes (final_state (write_json_file env t name ft d s))). flat_file (fst w)"
  using assms(2) flat_file_filename [OF assms(1), of t ft]
  by (simp add: write_json_file_def finish_export_def Let_def)

lemma get_quicksight_resource_writes [simp]:
  "writes (final_state (get_quicksight_resource env acct reg t rid s)) = writes s"
  by (simp add: get_quicksight_resource_def split: sum.split option.split)

lemma list_quicksight_resources_writes [simp]:
  "writes (snd (list_quicksight_resources env acct reg t s)) = writes s"
  by (simp add: list_quicksight_resources_def split: sum.split)

lemma process_item_flat:
  assumes "\<forall>w \<in> set (writes s). flat_file (fst w)"
  shows "\<forall>w \<in> set (writes (final_state (process_item env acct reg t n i x s))). flat_file (fst w)"
proof (rule process_item_rule)
  show "\<forall>w \<in> set (writes s). flat_file (fst w)" by fact
next
  fix rid
  show "\<forall>w \<in> set (writes (final_state (get_quicksight_resource env acct reg t rid s))).
      flat_file (fst w)"
    using assms by simp
next
  fix rid d s1 nm
  assume "get_quicksight_resource env acct reg t rid s = Inr (Some d, s1)"
  then have "writes s1 = writes s"
    using get_quicksight_resource_writes [of env acct reg t rid s] by simp
  then have "\<forall>w \<in> set (writes s1). flat_file (fst w)" using assms by simp
  moreover have "CHR ''/'' \<notin> set (str_replace (CHR ''/'') ''--'' nm)"
    by (rule str_replace_removes) simp
  ultimately show "\<forall>w \<in> set (writes (final_state (write_json_file env t
      (str_replace (CHR ''/'') ''--'' nm) ''definition'' d s1))). flat_file (fst w)"
    by (intro write_json_file_flat)
qed simp

lemma process_type_flat:
  assumes "\<forall>w \<in> set (writes s). flat_file (fst w)"
  shows "\<forall>w \<in> set (writes (final_state (process_type env acct reg t s))). flat_file (fst w)"
proof (rule process_type_rule)
  show "\<forall>w \<in> set (writes (snd (list_quicksight_resources env acct reg t s))). flat_file (fst w)"
    using assms by simp
next
  fix d
  show "\<forall>w \<in> set (writes (final_state (write_json_file env t [] ''list'' d
      (snd (list_quicksight_resources env acct reg t s))))). flat_file (fst w)"
    using assms by (intro write_json_file_flat) simp_all
next
  fix d s2 resources items
  assume "write_json_file env t [] ''list'' d
      (snd (list_quicksight_resources env acct reg t s)) = Inr ((), s2)"
  then have "\<forall>w \<in> set (writes s2). flat_file (fst w)"
    using write_json_file_flat [of "[]" "snd (list_quicksight_resources env acct reg t s)"
        env t "''list''" d] assms
    by simp
  then show "\<forall>w \<in> set (writes (final_state
      (process_items env acct reg t (length items) 0 items s2))). flat_file (fst w)"
    by (rule process_items_rule) (rule process_item_flat)
qed

lemma main_flat: "\<forall>w \<in> set (writes (snd (main env cli))). flat_file (fst w)"
proof (rule main_rule)
  have "\<forall>w \<in> set (writes (initial_state env)). flat_file (fst w)"
    by (simp add: initial_state_def)
  then show "\<forall>w \<in> set (writes (final_state (main_loop env (account_id cli) (region cli)
      (resource_types (type_arg cli)) (initial_state env)))). flat_file (fst w)"
    by (rule main_loop_rule) (rule process_type_flat)
qed (simp add: finish_export_def)

lemma process_item_saves:
  assumes "getitem x (json_object_id t) = Inr rid"
    and "aws_describe env reg t acct rid = Inr d" and "map_of d ''Error'' = None" and "d \<noteq> []"
    and "getitem x ''Name'' = Inr (PStr nm)"
    and "filepath t \<in> dirs s \<or> \<not> makedirs_fails env (filepath t)"
  shows "writes (final_state (process_item env acct reg t n i x s)) =
     writes s @
       [(filename t (str_replace (CHR ''/'') ''--'' nm) ''definition'', d,
         \<not> dump_fails env (filename t (str_replace (CHR ''/'') ''--'' nm) ''definition'') d)]"
  using assms
  by (auto simp add: process_item_def get_quicksight_resource_def write_json_file_def Let_def)

text \<open>
  Claim C5: for an item whose definition was fetched and whose name is the string
  \<open>nm\<close>, the writer is called for the file
  \<^verbatim>\<open>definitions/<type>/<sanitized name>-<type>.json\<close>, where the sanitized name is \<open>nm\<close>
  with every \<^verbatim>\<open>/\<close> replaced by \<^verbatim>\<open>--\<close>; the part after the directory holds no \<^verbatim>\<open>/\<close>;
  and every file a run writes, or tries to write, lies directly in the directory of a
  type.
\<close>

theorem definition_file_path:
  assumes "getitem x (json_object_id t) = Inr rid"
    and "aws_describe env reg t acct rid = Inr d" and "map_of d ''Error'' = None" and "d \<noteq> []"
    and "getitem x ''Name'' = Inr (PStr nm)"
    and "filepath t \<in> dirs s \<or> \<not> makedirs_fails env (filepath t)"
  shows "(\<exists>saved. writes (final_state (process_item env acct reg t n i x s)) =
       writes s @
         [(''definitions/'' @ type_name t @ ''/'' @ str_replace (CHR ''/'') ''--'' nm @
             ''-'' @ type_name t @ ''.json'', d, saved)]) \<and>
     CHR ''/'' \<notin> set (str_replace (CHR ''/'') ''--'' nm @ ''-'' @ type_name t @ ''.json'') \<and>
     (\<forall>w \<in> set (writes (snd (main env cli))). flat_file (fst w))"
proof -
  have "filename t (str_replace (CHR ''/'') ''--'' nm) ''definition'' =
      ''definitions/'' @ type_name t @ ''/'' @ str_replace (CHR ''/'') ''--'' nm @
             ''-'' @ type_name t @ ''.json''"
    by (simp add: filename_def filepath_def)
  then have a: "\<exists>saved. writes (final_state (process_item env acct reg t n i x s)) =
       writes s @
         [(''definitions/'' @ type_name t @ ''/'' @ str_replace (CHR ''/'') ''--'' nm @
             ''-'' @ type_name t @ ''.json'', d, saved)]"
    using process_item_saves [OF assms, where n = n and i = i] by simp
  have "CHR ''/'' \<notin> set (str_replace (CHR ''/'') ''--'' nm)"
    by (rule str_replace_removes) simp
  then have b: "CHR ''/'' \<notin> set (str_replace (CHR ''/'') ''--'' nm @ ''-'' @ type_name t @ ''.json'')"
    using type_name_no_slash [of t] by simp
  from a b main_flat show ?thesis by blast
qed

theorem definition_file_path_witness:
  "writes (final_state (process_item sample_env ''123456789012'' ''us-east-1'' data_sets 2 0
       (item data_sets ''ds1'' ''Sales/Q1'') (initial_state sample_env))) =
     [(''definitions/data_sets/Sales--Q1-data_sets.json'', [(''Status'', PInt 200)], True)] \<and>
   list_all flat_file (map fst (writes (snd (main sample_env sample_cli))))"
proof -
  let ?x = "item data_sets ''ds1'' ''Sales/Q1''"
  have 1: "getitem ?x (json_object_id data_sets) = Inr (PStr ''ds1'')"
    by (simp add: item_def)
  have 2: "aws_describe sample_env ''us-east-1'' data_sets ''123456789012'' (PStr ''ds1'') =
      Inr [(''Status'', PInt 200)]"
    by (simp add: sample_env_def)
  have 3: "map_of [(''Status'', PInt 200)] ''Error'' = None" by simp
  have 4: "[(''Status'', PInt 200)] \<noteq> []" by simp
  have 5: "getitem ?x ''Name'' = Inr (PStr ''Sales/Q1'')"
    by (simp add: item_def)
  have 6: "filepath data_sets \<in> dirs (initial_state sample_env) \<or>
      \<not> makedirs_fails sample_env (filepath data_sets)"
    by (simp add: sample_env_def)
  note t = definition_file_path [OF 1 2 3 4 5 6, where n = 2 and i = 0 and cli = sample_cli]
  have e: "writes (final_state (process_item sample_env ''123456789012'' ''us-east-1'' data_sets 2 0
       ?x (initial_state sample_env))) =
     [(''definitions/data_sets/Sales--Q1-data_sets.json'', [(''Status'', PInt 200)], True)]"
    by code_simp
  from t have "\<forall>w \<in> set (writes (snd (main sample_env sample_cli))). flat_file (fst w)"
    by blast
  then have "list_all flat_file (map fst (writes (snd (main sample_env sample_cli))))"
    by (simp add: list_all_iff)
  with e show ?thesis by simp
qed

section \<open>How a run ends\<close>

lemma get_quicksight_resource_wf:
  assumes "wf_response (aws_describe env reg t acct rid)"
  shows "\<exists>p. get_quicksight_resource env acct reg t rid s = Inr p"
proof (cases "aws_describe env reg t acct rid")
  case (Inl err)
  then show ?thesis by (simp add: get_quicksight_resource_def)
next
  case (Inr d)
  show ?thesis
  proof (cases "map_of d ''Error''")
    case None
    then show ?thesis using Inr by (simp add: get_quicksight_resource_def)
  next
    case (Some v)
    then obtain e where "v = PDict e" "map_of e ''Code'' \<noteq> None" "map_of e ''Message'' \<noteq> None"
      using assms Inr by (cases v) (simp_all add: wf_response_def)
    then show ?thesis using Inr Some by (auto simp add: get_quicksight_resource_def)
  qed
qed

lemma write_json_file_graceful:
  "write_json_file env t name ft d s = Inl c \<Longrightarrow> \<exists>s'. c = finish_export s'"
  by (auto simp add: write_json_file_def Let_def split: if_splits)

lemma is_str_iff: "is_str v \<longleftrightarrow> (\<exists>s. v = PStr s)"
  by (cases v) simp_all

lemma process_item_graceful:
  assumes "wf_item env acct reg t x" and "process_item env acct reg t n i x s = Inl c"
  shows "\<exists>s'. c = finish_export s'"
proof -
  obtain kv rid nm where x: "x = PDict kv" "map_of kv (json_object_id t) = Some rid"
    "wf_response (aws_describe env reg t acct rid)" "map_of kv ''Name'' = Some (PStr nm)"
    using assms(1)
    by (auto simp add: wf_item_def is_str_iff split: pyval.splits option.splits)
  obtain p where p: "get_quicksight_resource env acct reg t rid s = Inr p"
    using get_quicksight_resource_wf [OF x(3)] by blast
  obtain rj s1 where rj: "p = (rj, s1)" by (cases p)
  show ?thesis
  proof (cases "\<exists>d. rj = Some d \<and> d \<noteq> []")
    case False
    then have "\<exists>q. process_item env acct reg t n i x s = Inr q"
      using x p rj by (auto simp add: process_item_def split: option.splits)
    then show ?thesis using assms(2) by simp
  next
    case True
    then obtain d where d: "rj = Some d" "d \<noteq> []" by blast
    have "write_json_file env t (str_replace (CHR ''/'') ''--'' nm) ''definition'' d s1 = Inl c"
      using assms(2) x p rj d
      by (simp add: process_item_def split: sum.splits prod.splits)
    then show ?thesis by (rule write_json_file_graceful)
  qed
qed

lemma process_items_graceful:
  assumes "list_all (wf_item env acct reg t) xs"
    and "process_items env acct reg t n i xs s = Inl c"
  shows "\<exists>s'. c = finish_export s'"
  using assms
proof (induction xs arbitrary: i s)
  case Nil
  then show ?case by simp
next
  case (Cons x xs)
  show ?case
  proof (cases "process_item env acct reg t n i x s")
    case (Inl c')
    then have "process_item env acct reg t n i x s = Inl c"
      using Cons.prems(2) by simp
    moreover have "wf_item env acct reg t x" using Cons.prems(1) by simp
    ultimately show ?thesis by (rule process_item_graceful [rotated])
  next
    case (Inr p)
    then have "process_items env acct reg t n (Suc i) xs (snd p) = Inl c"
      using Cons.prems(2) by (simp split: prod.splits)
    then show ?thesis using Cons.IH Cons.prems(1) by simp
  qed
qed

lemma process_type_graceful:
  assumes "wf_list env acct reg t" and "process_type env acct reg t s = Inl c"
  shows "\<exists>s'. c = finish_export s'"
proof (cases "aws_list env reg t acct")
  case (Inl err)
  then show ?thesis using assms(2) by (simp add: process_type_unfold)
next
  case (Inr d)
  show ?thesis
  proof (cases "d = []")
    case True
    then show ?thesis using assms(2) Inr by (simp add: process_type_unfold)
  next
    case False
    then obtain resources items where r: "map_of d (json_object_name t) = Some resources"
      "py_iter resources = Inr items" "list_all (wf_item env acct reg t) items"
      using assms(1) Inr by (auto simp add: wf_list_def split: option.splits sum.splits)
    let ?w = "write_json_file env t [] ''list'' d (snd (list_quicksight_resources env acct reg t s))"
    show ?thesis
    proof (cases ?w)
      case (Inl c')
      then have "c' = c" using assms(2) Inr False by (simp add: process_type_unfold)
      then show ?thesis using Inl write_json_file_graceful by blast
    next
      case w: (Inr p)
      then have "process_items env acct reg t (length items) 0 items (snd p) = Inl c"
        using assms(2) Inr False r by (simp add: process_type_unfold)
      then show ?thesis using r(3) process_items_graceful by blast
    qed
  qed
qed

lemma main_loop_graceful:
  assumes "list_all (wf_list env acct reg) ts" and "main_loop env acct reg ts s = Inl c"
  shows "\<exists>s'. c = finish_export s'"
  using assms
proof (induction ts arbitrary: s)
  case Nil
  then show ?case by simp
next
  case (Cons t ts)
  show ?case
  proof (cases "process_type env acct reg t s")
    case (Inl c')
    then have "process_type env acct reg t s = Inl c"
      using Cons.prems(2) by simp
    moreover have "wf_list env acct reg t" using Cons.prems(1) by simp
    ultimately show ?thesis by (rule process_type_graceful [rotated])
  next
    case (Inr p)
    then have "main_loop env acct reg ts (snd p) = Inl c"
      using Cons.prems(2) by (simp split: prod.splits)
    then show ?thesis using Cons.IH Cons.prems(1) by simp
  qed
qed

lemma main_graceful:
  assumes "wf_run env cli"
  shows "\<exists>s. main env cli = finish_export s"
proof (cases "main_loop env (account_id cli) (region cli) (resource_types (type_arg cli))
    (initial_state env)")
  case (Inl c)
  then have "\<exists>s. c = finish_export s"
    using assms main_loop_graceful unfolding wf_run_def by blast
  then show ?thesis using Inl by (simp add: main_def)
next
  case (Inr p)
  then show ?thesis by (auto simp add: main_def split: prod.split)
qed

text \<open>
  Claim C8, as the specification words it, has every run end in \<^verbatim>\<open>finish_export\<close> with
  exit status 0. A list response without the summaries field of its type makes line 183
  raise a \<^verbatim>\<open>KeyError\<close> that nothing catches: the list has been saved, no summary is
  logged or printed, and the interpreter ends the process with status 1.
\<close>

theorem malformed_response_crashes:
  "fst (main bare_env sample_cli) = Uncaught (KeyError ''DataSetSummaries'') \<and>
   exit_status (fst (main bare_env sample_cli)) = 1 \<and>
   logged (snd (main bare_env sample_cli)) =
     [(INFO, Retrieved_list data_sets), (INFO, Created_dir ''definitions/data_sets/''),
      (INFO, Saved_list data_sets)] \<and>
   printed (snd (main bare_env sample_cli)) = [Retrieved_list data_sets]"
  by code_simp

text \<open>
  Claim C8, amended: a run that reaches the main loop (the log directory and the log file
  were set up and the command line was parsed), in which the SDK client can be created
  and every response has the shape the script relies on, ends in \<^verbatim>\<open>finish_export\<close>: the
  summary of the counters is the last entry of the log and of the console, and the exit
  status is 0, however many list calls, describe calls, saves or creations of a type's
  directory failed on the way.
\<close>

theorem well_formed_run_exits_normally:
  assumes "wf_run env cli"
  shows "(\<exists>s. main env cli = finish_export s) \<and>
    fst (main env cli) = SystemExit \<and>
    exit_status (fst (main env cli)) = 0 \<and>
    last (logged (snd (main env cli))) = (INFO, summary (snd (main env cli))) \<and>
    last (printed (snd (main env cli))) = summary (snd (main env cli))"
proof -
  obtain s where s: "main env cli = finish_export s"
    using main_graceful [OF assms] by blast
  then show ?thesis by (auto simp add: finish_export_def)
qed

theorem well_formed_run_exits_normally_witness:
  "wf_run sample_env sample_cli \<and>
   fst (main sample_env sample_cli) = SystemExit \<and>
   exit_status (fst (main sample_env sample_cli)) = 0 \<and>
   last (printed (snd (main sample_env sample_cli))) = Summary 2 0 2 0 0 0"
proof -
  have wf: "wf_run sample_env sample_cli" by code_simp
  have s: "summary (snd (main sample_env sample_cli)) = Summary 2 0 2 0 0 0" by code_simp
  show ?thesis
    using well_formed_run_exits_normally [OF wf] wf s by simp
qed

end
